theory Spec2Isabelle
  imports Main
begin

section \<open>Python strings\<close>

text \<open>
  The hooks are Python scripts. A Python \<open>str\<close> is modelled as a HOL \<open>string\<close>, one
  \<open>char\<close> per character; the operations below are the \<open>str\<close> methods the hooks call.
  Characters are the code points below 256: \<open>lower\<close> maps the capital letters among
  them (\<open>A\<close> to \<open>Z\<close>, and the accented capitals from code 192 to 222 but for the
  multiplication sign) to their small letters 32 places on, and the white space of
  \<open>strip\<close> is the white space of Python among them.
\<close>

definition lower_char :: "char \<Rightarrow> char" where
  "lower_char c =
     (let n = (of_char c :: nat)
      in if (65 \<le> n \<and> n \<le> 90) \<or> (192 \<le> n \<and> n \<le> 222 \<and> n \<noteq> 215)
         then char_of (n + 32) else c)"

definition lower :: "string \<Rightarrow> string" where
  "lower s = map lower_char s"

fun startswith :: "string \<Rightarrow> string \<Rightarrow> bool" where
  "startswith s [] = True"
| "startswith [] (p # ps) = False"
| "startswith (c # cs) (p # ps) = (c = p \<and> startswith cs ps)"

text \<open>\<open>contains sub s\<close> is Python's \<open>sub in s\<close>.\<close>

fun contains :: "string \<Rightarrow> string \<Rightarrow> bool" where
  "contains sub [] = (sub = [])"
| "contains sub (c # cs) = (startswith (c # cs) sub \<or> contains sub cs)"

definition endswith :: "string \<Rightarrow> string \<Rightarrow> bool" where
  "endswith s p = startswith (rev s) (rev p)"

definition is_space :: "char \<Rightarrow> bool" where
  "is_space c = (c \<in> set [CHR 0x09, CHR 0x0A, CHR 0x0B, CHR 0x0C, CHR 0x0D,
                           CHR 0x1C, CHR 0x1D, CHR 0x1E, CHR 0x1F, CHR 0x20,
                           CHR 0x85, CHR 0xA0])"

definition lstrip :: "string \<Rightarrow> string" where
  "lstrip s = dropWhile is_space s"

definition rstrip :: "string \<Rightarrow> string" where
  "rstrip s = rev (dropWhile is_space (rev s))"

definition strip :: "string \<Rightarrow> string" where
  "strip s = rstrip (lstrip s)"

text \<open>
  \<open>split_on d s\<close> is \<open>s.split(d)\<close> for a one-character separator: the pieces between
  the separators, so one piece more than there are separators.
\<close>

fun split_on :: "char \<Rightarrow> string \<Rightarrow> string list" where
  "split_on d [] = [[]]"
| "split_on d (c # cs) =
     (if c = d then [] # split_on d cs
      else (case split_on d cs of
              [] \<Rightarrow> [[c]]
            | p # ps \<Rightarrow> (c # p) # ps))"

section \<open>The operating system\<close>

text \<open>
  Everything a hook does outside itself goes through a record of operations over a world
  \<open>'w\<close> that is passed along: running a shell command, looking at the file system,
  reading and writing files. An operation that can raise returns a sum, \<open>Inl\<close> the
  exception, and the world it leaves behind.

  \<open>subprocess_run cmd t\<close> is \<open>subprocess.run(cmd, shell=True, capture_output=True,
  text=True, timeout=t, cwd=betty_dir)\<close>.
\<close>

datatype exn = TimeoutExpired | Exception string

text \<open>\<open>str_of e\<close> is \<open>str(e)\<close> for the exceptions that carry their message.\<close>

fun str_of :: "exn \<Rightarrow> string" where
  "str_of TimeoutExpired = ''Command timed out''"
| "str_of (Exception m) = m"

record completed_process =
  cp_returncode :: int
  cp_stdout :: string
  cp_stderr :: string

record 'w os =
  subprocess_run :: "string \<Rightarrow> nat option \<Rightarrow> 'w \<Rightarrow> (exn + completed_process) \<times> 'w"
  path_exists :: "string \<Rightarrow> 'w \<Rightarrow> bool"
  rglob_count :: "string \<Rightarrow> 'w \<Rightarrow> nat"
  read_file :: "string \<Rightarrow> 'w \<Rightarrow> (exn + string) \<times> 'w"
  read_lines :: "string \<Rightarrow> 'w \<Rightarrow> (exn + string list) \<times> 'w"
  write_file :: "string \<Rightarrow> string \<Rightarrow> 'w \<Rightarrow> (exn + unit) \<times> 'w"
  write_lines :: "string \<Rightarrow> string list \<Rightarrow> 'w \<Rightarrow> (exn + unit) \<times> 'w"

text \<open>
  The regular expressions of the hooks are matched by Python's \<open>re\<close> module, which is
  not part of the repository: \<open>re.findall\<close> and \<open>re.search\<close> are parameters, one per
  number of groups in the pattern, since a pattern with \<open>k\<close> groups yields \<open>k\<close>-tuples
  (and plain strings for \<open>k = 1\<close>). A pattern is named by the place it is used at.
  \<open>int_of_str s\<close> is the builtin \<open>int(s)\<close>, \<open>None\<close> where it raises \<open>ValueError\<close>.
\<close>

datatype pattern =
    Jest            \<comment> \<open>\<^verbatim>\<open>FAIL\s+(.+?)\.(.+?)\s\<close>\<close>
  | Pytest          \<comment> \<open>\<^verbatim>\<open>FAILED\s+(.+?)::(.+?)\s\<close>\<close>
  | AssertionErr    \<comment> \<open>\<^verbatim>\<open>AssertionError:\s+(.+)\<close>\<close>
  | ErrorMsg        \<comment> \<open>\<^verbatim>\<open>Error:\s+(.+)\<close>\<close>
  | ESLint          \<comment> \<open>\<^verbatim>\<open>(.+?):(\d+):(\d+):\s+error:\s+(.+)\<close>\<close>
  | Ruff            \<comment> \<open>\<^verbatim>\<open>(.+?):(\d+):(\d+):\s+(.+)\<close>\<close>
  | TypeScript      \<comment> \<open>\<^verbatim>\<open>(.+?):(\d+):\s+error:\s+(.+)\<close>\<close>
  | MyPy            \<comment> \<open>\<^verbatim>\<open>(.+?):(\d+):\s+error:\s+(.+)\<close>\<close>
  | NoModule        \<comment> \<open>\<^verbatim>\<open>No module named '(.+?)'\<close>\<close>
  | TscError        \<comment> \<open>\<^verbatim>\<open>(.+?)\((\d+),(\d+)\): error TS\d+: (.+)\<close>\<close>
  | PyCompile       \<comment> \<open>\<^verbatim>\<open>File "(.+?)", line (\d+)\<close>\<close>
  | NpmLint         \<comment> \<open>\<^verbatim>\<open>(.+?):(\d+):(\d+)\s+error\s+(.+)\<close>\<close>

record pylib =
  findall1 :: "pattern \<Rightarrow> string \<Rightarrow> string list"
  findall2 :: "pattern \<Rightarrow> string \<Rightarrow> (string \<times> string) list"
  findall3 :: "pattern \<Rightarrow> string \<Rightarrow> (string \<times> string \<times> string) list"
  findall4 :: "pattern \<Rightarrow> string \<Rightarrow> (string \<times> string \<times> string \<times> string) list"
  search1 :: "pattern \<Rightarrow> string \<Rightarrow> string option"
  search2 :: "pattern \<Rightarrow> string \<Rightarrow> (string \<times> string) option"
  int_of_str :: "string \<Rightarrow> int option"

section \<open>betty-auto-test-fix.py: running the stages\<close>

text \<open>The dictionary \<open>run_command\<close> returns.\<close>

record cmd_result =
  success :: bool
  cmd_output :: string
  returncode :: int

text \<open>
  \<open>run_command\<close>: the command runs with a timeout of 60 seconds; both \<open>except\<close>
  clauses return a dictionary, so nothing is raised to the caller.
\<close>

definition run_command :: "'w os \<Rightarrow> string \<Rightarrow> 'w \<Rightarrow> cmd_result \<times> 'w" where
  "run_command sys command w =
     (case subprocess_run sys command (Some 60) w of
        (Inr result, w') \<Rightarrow>
          (\<lparr>success = (cp_returncode result = 0),
            cmd_output = cp_stdout result @ cp_stderr result,
            returncode = cp_returncode result\<rparr>, w')
      | (Inl TimeoutExpired, w') \<Rightarrow>
          (\<lparr>success = False,
            cmd_output = ''Command timed out after 60 seconds'',
            returncode = - 1\<rparr>, w')
      | (Inl (Exception m), w') \<Rightarrow>
          (\<lparr>success = False, cmd_output = str_of (Exception m), returncode = - 1\<rparr>, w'))"

text \<open>
  A failure is a dictionary; the keys that only some parsers set are options. \<open>details\<close>
  holds the match of a test pattern: the two groups of a Jest or Pytest match, or the one
  string of the other two patterns.
\<close>

record failure =
  f_type :: string
  f_command :: string
  f_details :: "string list option"
  f_file :: "string option"
  f_line :: "string option"
  f_column :: "string option"
  f_message :: "string option"
  f_fixable :: bool

definition test_failure :: "string \<Rightarrow> string list \<Rightarrow> failure" where
  "test_failure cmd m =
     \<lparr>f_type = ''test_failure'', f_command = cmd, f_details = Some m, f_file = None,
      f_line = None, f_column = None, f_message = None, f_fixable = True\<rparr>"

definition lint_error :: "string \<Rightarrow> string \<times> string \<times> string \<times> string \<Rightarrow> failure" where
  "lint_error cmd m =
     (case m of (f, l, c, msg) \<Rightarrow>
        \<lparr>f_type = ''lint_error'', f_command = cmd, f_details = None, f_file = Some f,
         f_line = Some l, f_column = Some c, f_message = Some msg, f_fixable = True\<rparr>)"

definition type_error :: "string \<Rightarrow> string \<times> string \<times> string \<Rightarrow> failure" where
  "type_error cmd m =
     (case m of (f, l, msg) \<Rightarrow>
        \<lparr>f_type = ''type_error'', f_command = cmd, f_details = None, f_file = Some f,
         f_line = Some l, f_column = None, f_message = Some msg, f_fixable = True\<rparr>)"

definition yaml_error :: "string \<Rightarrow> failure" where
  "yaml_error cmd =
     \<lparr>f_type = ''yaml_error'', f_command = cmd, f_details = None, f_file = None,
      f_line = None, f_column = None, f_message = None, f_fixable = True\<rparr>"

text \<open>
  The inner loop of a parser, \<open>for match in matches: failures.append({...})\<close>, and the
  outer one over the patterns: \<open>append_matches\<close> is one round of the outer loop.
\<close>

fun append_matches :: "('m \<Rightarrow> failure) \<Rightarrow> failure list \<Rightarrow> 'm list \<Rightarrow> failure list" where
  "append_matches mk failures [] = failures"
| "append_matches mk failures (m # ms) = append_matches mk (failures @ [mk m]) ms"

fun pair_list :: "string \<times> string \<Rightarrow> string list" where
  "pair_list (a, b) = [a, b]"

definition parse_test_failures :: "pylib \<Rightarrow> string \<Rightarrow> string \<Rightarrow> failure list" where
  "parse_test_failures rx out cmd =
     (let failures = [];
          failures = append_matches (test_failure cmd) failures
                       (map pair_list (findall2 rx Jest out));
          failures = append_matches (test_failure cmd) failures
                       (map pair_list (findall2 rx Pytest out));
          failures = append_matches (test_failure cmd) failures
                       (map (\<lambda>s. [s]) (findall1 rx AssertionErr out));
          failures = append_matches (test_failure cmd) failures
                       (map (\<lambda>s. [s]) (findall1 rx ErrorMsg out))
      in take 10 failures)"

definition parse_lint_failures :: "pylib \<Rightarrow> string \<Rightarrow> string \<Rightarrow> failure list" where
  "parse_lint_failures rx out cmd =
     (let failures = [];
          failures = append_matches (lint_error cmd) failures (findall4 rx ESLint out);
          failures = append_matches (lint_error cmd) failures (findall4 rx Ruff out)
      in take 10 failures)"

definition parse_type_failures :: "pylib \<Rightarrow> string \<Rightarrow> string \<Rightarrow> failure list" where
  "parse_type_failures rx out cmd =
     (let failures = [];
          failures = append_matches (type_error cmd) failures (findall3 rx TypeScript out);
          failures = append_matches (type_error cmd) failures (findall3 rx MyPy out)
      in take 10 failures)"

definition parse_build_failures :: "string \<Rightarrow> string \<Rightarrow> failure list" where
  "parse_build_failures out cmd =
     (if contains ''docker'' (lower cmd) then
        (if contains ''yaml'' (lower out) \<or> contains ''yml'' (lower out)
         then [yaml_error cmd] else [])
      else [])"


text \<open>
  One entry of \<open>results['tests_run']\<close>, and the dictionary \<open>run_all_tests\<close> builds (its
  time stamp is left out: nothing reads it).
\<close>

record test_run =
  tr_command :: string
  tr_type :: string
  tr_success :: bool
  tr_output :: string

record test_results =
  project_type :: string
  changed_files :: "string list"
  tests_run :: "test_run list"
  failures :: "failure list"
  has_failures :: bool

text \<open>
  The body of each of the four loops of \<open>run_all_tests\<close> after the command has run: the
  run is recorded, and only the output of a command that did not succeed is parsed.
\<close>

definition record_stage ::
  "string \<Rightarrow> (string \<Rightarrow> string \<Rightarrow> failure list) \<Rightarrow> string \<Rightarrow> cmd_result \<Rightarrow>
   test_results \<Rightarrow> test_results" where
  "record_stage kind parse cmd res results =
     (let results = results\<lparr>tests_run := tests_run results @
                      [\<lparr>tr_command = cmd, tr_type = kind, tr_success = success res,
                        tr_output = take 1000 (cmd_output res)\<rparr>]\<rparr>
      in if \<not> success res
         then results\<lparr>failures := failures results @ parse (cmd_output res) cmd\<rparr>
         else results)"

text \<open>One of the four loops: \<open>for cmd in config.get(..., [])\<close>.\<close>

fun run_stages ::
  "'w os \<Rightarrow> string \<Rightarrow> (string \<Rightarrow> string \<Rightarrow> failure list) \<Rightarrow> string list \<Rightarrow>
   test_results \<Rightarrow> 'w \<Rightarrow> test_results \<times> 'w" where
  "run_stages sys kind parse [] results w = (results, w)"
| "run_stages sys kind parse (cmd # cmds) results w =
     (case run_command sys cmd w of
        (res, w') \<Rightarrow> run_stages sys kind parse cmds (record_stage kind parse cmd res results) w')"


section \<open>betty-auto-test-fix.py: the fixers\<close>

text \<open>
  Every fixer but the two that only return \<open>False\<close> is one \<open>try\<close> block under a bare
  \<open>except\<close> that returns \<open>False\<close>. The block is modelled on its own, as a computation
  that may raise (\<open>..._try\<close>), and the fixer is that block under \<open>except_false\<close>.
\<close>

definition except_false :: "('w \<Rightarrow> (exn + bool) \<times> 'w) \<Rightarrow> 'w \<Rightarrow> bool \<times> 'w" where
  "except_false body w =
     (case body w of
        (Inl e, w') \<Rightarrow> (False, w')
      | (Inr b, w') \<Rightarrow> (b, w'))"

text \<open>\<open>not v\<close> for the value of \<open>failure.get(key)\<close>, and \<open>failure.get(key, d)\<close>.\<close>

definition falsy :: "string option \<Rightarrow> bool" where
  "falsy v = (v = None \<or> v = Some [])"

definition get_str :: "string option \<Rightarrow> string \<Rightarrow> string" where
  "get_str v d = (case v of None \<Rightarrow> d | Some s \<Rightarrow> s)"

text \<open>\<open>int(failure.get('line', 0))\<close>: \<open>None\<close> where \<open>int\<close> raises.\<close>

definition line_number :: "pylib \<Rightarrow> failure \<Rightarrow> int option" where
  "line_number py failure =
     (case f_line failure of None \<Rightarrow> Some 0 | Some s \<Rightarrow> int_of_str py s)"

text \<open>
  The position \<open>xs[i]\<close> reads or writes: a negative index counts from the end, and
  \<open>None\<close> is Python's \<open>IndexError\<close>.
\<close>

definition py_index :: "'a list \<Rightarrow> int \<Rightarrow> nat option" where
  "py_index xs i =
     (let n = int (length xs); j = (if i < 0 then n + i else i)
      in if 0 \<le> j \<and> j < n then Some (nat j) else None)"

definition nl :: string where
  "nl = [CHR 0x0A]"

definition fix_missing_import_js_try ::
  "'w os \<Rightarrow> failure \<Rightarrow> 'w \<Rightarrow> (exn + bool) \<times> 'w" where
  "fix_missing_import_js_try sys failure w =
     (if falsy (f_file failure) then (Inr False, w)
      else (case read_file sys (get_str (f_file failure) []) w of
              (Inl e, w1) \<Rightarrow> (Inl e, w1)
            | (Inr content, w1) \<Rightarrow>
                if contains '''React' is not defined'' (get_str (f_message failure) [])
                   \<and> \<not> contains ''import React'' content
                then (case write_file sys (get_str (f_file failure) [])
                             (''import React from 'react';'' @ nl @ content) w1 of
                        (Inl e, w2) \<Rightarrow> (Inl e, w2)
                      | (Inr u, w2) \<Rightarrow> (Inr True, w2))
                else (Inr False, w1)))"

definition fix_missing_import_js :: "'w os \<Rightarrow> failure \<Rightarrow> 'w \<Rightarrow> bool \<times> 'w" where
  "fix_missing_import_js sys failure = except_false (fix_missing_import_js_try sys failure)"

text \<open>The line a syntax fixer of JavaScript writes back in place of \<open>line\<close>.\<close>

definition js_fixed_line :: "string \<Rightarrow> bool \<Rightarrow> string" where
  "js_fixed_line ln is_last =
     (if endswith (rstrip ln) '','' \<and> is_last then butlast (rstrip ln) @ nl
      else if \<not> endswith (rstrip ln) '';'' \<and> \<not> endswith (rstrip ln) ''{''
      then rstrip ln @ '';'' @ nl
      else ln)"

definition fix_syntax_error_js_try ::
  "'w os \<Rightarrow> pylib \<Rightarrow> failure \<Rightarrow> 'w \<Rightarrow> (exn + bool) \<times> 'w" where
  "fix_syntax_error_js_try sys py failure w =
     (case line_number py failure of
        None \<Rightarrow> (Inl (Exception ''ValueError''), w)
      | Some line_num \<Rightarrow>
          if falsy (f_file failure) \<or> line_num = 0 then (Inr False, w)
          else (case read_lines sys (get_str (f_file failure) []) w of
                  (Inl e, w1) \<Rightarrow> (Inl e, w1)
                | (Inr lines, w1) \<Rightarrow>
                    if line_num \<le> int (length lines) then
                      (case py_index lines (line_num - 1) of
                         None \<Rightarrow> (Inl (Exception ''IndexError''), w1)
                       | Some i \<Rightarrow>
                           (case write_lines sys (get_str (f_file failure) [])
                                   (lines[i := js_fixed_line (lines ! i)
                                                 (line_num = int (length lines))]) w1 of
                              (Inl e, w2) \<Rightarrow> (Inl e, w2)
                            | (Inr u, w2) \<Rightarrow> (Inr True, w2)))
                    else (Inr False, w1)))"

definition fix_syntax_error_js :: "'w os \<Rightarrow> pylib \<Rightarrow> failure \<Rightarrow> 'w \<Rightarrow> bool \<times> 'w" where
  "fix_syntax_error_js sys py failure = except_false (fix_syntax_error_js_try sys py failure)"

text \<open>
  \<open>fix_type_error_ts\<close> writes back \<open>content.replace(': any', ': any')\<close>, which is
  \<open>content\<close>.
\<close>

definition fix_type_error_ts_try ::
  "'w os \<Rightarrow> failure \<Rightarrow> 'w \<Rightarrow> (exn + bool) \<times> 'w" where
  "fix_type_error_ts_try sys failure w =
     (if falsy (f_file failure) then (Inr False, w)
      else (case read_file sys (get_str (f_file failure) []) w of
              (Inl e, w1) \<Rightarrow> (Inl e, w1)
            | (Inr content, w1) \<Rightarrow>
                if contains ''implicitly has an 'any' type'' (get_str (f_message failure) [])
                then (case write_file sys (get_str (f_file failure) []) content w1 of
                        (Inl e, w2) \<Rightarrow> (Inl e, w2)
                      | (Inr u, w2) \<Rightarrow> (Inr True, w2))
                else (Inr False, w1)))"

definition fix_type_error_ts :: "'w os \<Rightarrow> failure \<Rightarrow> 'w \<Rightarrow> bool \<times> 'w" where
  "fix_type_error_ts sys failure = except_false (fix_type_error_ts_try sys failure)"

definition fix_lint_error_js_try ::
  "'w os \<Rightarrow> failure \<Rightarrow> 'w \<Rightarrow> (exn + bool) \<times> 'w" where
  "fix_lint_error_js_try sys failure w =
     (case run_command sys ''npm run lint -- --fix'' w of
        (result, w1) \<Rightarrow> (Inr (success result), w1))"

definition fix_lint_error_js :: "'w os \<Rightarrow> failure \<Rightarrow> 'w \<Rightarrow> bool \<times> 'w" where
  "fix_lint_error_js sys failure = except_false (fix_lint_error_js_try sys failure)"


definition fix_import_error_py_try ::
  "'w os \<Rightarrow> pylib \<Rightarrow> failure \<Rightarrow> 'w \<Rightarrow> (exn + bool) \<times> 'w" where
  "fix_import_error_py_try sys py failure w =
     (if falsy (f_file failure) then (Inr False, w)
      else (case read_file sys (get_str (f_file failure) []) w of
              (Inl e, w1) \<Rightarrow> (Inl e, w1)
            | (Inr content, w1) \<Rightarrow>
                if contains ''No module named'' (get_str (f_message failure) []) then
                  (case search1 py NoModule (get_str (f_message failure) []) of
                     Some module \<Rightarrow>
                       (case run_command sys (''pip install '' @ module) w1 of
                          (result, w2) \<Rightarrow> (Inr (success result), w2))
                   | None \<Rightarrow> (Inr False, w1))
                else (Inr False, w1)))"

definition fix_import_error_py :: "'w os \<Rightarrow> pylib \<Rightarrow> failure \<Rightarrow> 'w \<Rightarrow> bool \<times> 'w" where
  "fix_import_error_py sys py failure = except_false (fix_import_error_py_try sys py failure)"

text \<open>
  The lines a syntax fixer of Python writes back: after a line that ends with a colon
  and is not the last one, the next line is indented if it is not; \<open>None\<close> is the
  \<open>IndexError\<close> of \<open>lines[line_num]\<close>.
\<close>

definition py_fixed_lines :: "string list \<Rightarrow> nat \<Rightarrow> int \<Rightarrow> string list option" where
  "py_fixed_lines lines i line_num =
     (if endswith (rstrip (lines ! i)) '':'' \<and> line_num < int (length lines) then
        (case py_index lines line_num of
           None \<Rightarrow> None
         | Some j \<Rightarrow>
             if \<not> startswith (lines ! j) ''    '' \<and> \<not> startswith (lines ! j) [CHR 0x09]
             then Some (lines[j := ''    '' @ lines ! j])
             else Some lines)
      else Some lines)"

definition fix_syntax_error_py_try ::
  "'w os \<Rightarrow> pylib \<Rightarrow> failure \<Rightarrow> 'w \<Rightarrow> (exn + bool) \<times> 'w" where
  "fix_syntax_error_py_try sys py failure w =
     (case line_number py failure of
        None \<Rightarrow> (Inl (Exception ''ValueError''), w)
      | Some line_num \<Rightarrow>
          if falsy (f_file failure) \<or> line_num = 0 then (Inr False, w)
          else (case read_lines sys (get_str (f_file failure) []) w of
                  (Inl e, w1) \<Rightarrow> (Inl e, w1)
                | (Inr lines, w1) \<Rightarrow>
                    if line_num \<le> int (length lines) then
                      (case py_index lines (line_num - 1) of
                         None \<Rightarrow> (Inl (Exception ''IndexError''), w1)
                       | Some i \<Rightarrow>
                           (case py_fixed_lines lines i line_num of
                              None \<Rightarrow> (Inl (Exception ''IndexError''), w1)
                            | Some lines' \<Rightarrow>
                                (case write_lines sys (get_str (f_file failure) []) lines' w1 of
                                   (Inl e, w2) \<Rightarrow> (Inl e, w2)
                                 | (Inr u, w2) \<Rightarrow> (Inr True, w2))))
                    else (Inr False, w1)))"

definition fix_syntax_error_py :: "'w os \<Rightarrow> pylib \<Rightarrow> failure \<Rightarrow> 'w \<Rightarrow> bool \<times> 'w" where
  "fix_syntax_error_py sys py failure = except_false (fix_syntax_error_py_try sys py failure)"

definition fix_indentation_error_py_try ::
  "'w os \<Rightarrow> failure \<Rightarrow> 'w \<Rightarrow> (exn + bool) \<times> 'w" where
  "fix_indentation_error_py_try sys failure w =
     (if falsy (f_file failure) then (Inr False, w)
      else (case run_command sys (''autopep8 --in-place '' @ get_str (f_file failure) []) w of
              (result, w1) \<Rightarrow>
                if \<not> success result then
                  (case run_command sys (''black '' @ get_str (f_file failure) []) w1 of
                     (result, w2) \<Rightarrow> (Inr (success result), w2))
                else (Inr (success result), w1)))"

definition fix_indentation_error_py :: "'w os \<Rightarrow> failure \<Rightarrow> 'w \<Rightarrow> bool \<times> 'w" where
  "fix_indentation_error_py sys failure = except_false (fix_indentation_error_py_try sys failure)"

definition fix_type_error_py :: "failure \<Rightarrow> 'w \<Rightarrow> bool \<times> 'w" where
  "fix_type_error_py failure w = (False, w)"

definition fix_yaml_error_try ::
  "'w os \<Rightarrow> failure \<Rightarrow> 'w \<Rightarrow> (exn + bool) \<times> 'w" where
  "fix_yaml_error_try sys failure w =
     (case run_command sys ''yamllint -d relaxed docker-compose.yml'' w of
        (result, w1) \<Rightarrow> (Inr (success result), w1))"

definition fix_yaml_error :: "'w os \<Rightarrow> failure \<Rightarrow> 'w \<Rightarrow> bool \<times> 'w" where
  "fix_yaml_error sys failure = except_false (fix_yaml_error_try sys failure)"

definition fix_dockerfile_error :: "failure \<Rightarrow> 'w \<Rightarrow> bool \<times> 'w" where
  "fix_dockerfile_error failure w = (False, w)"

text \<open>The loop of \<open>attempt_generic_fix\<close>: the first command that succeeds ends it.\<close>

fun first_success :: "'w os \<Rightarrow> string list \<Rightarrow> 'w \<Rightarrow> bool \<times> 'w" where
  "first_success sys [] w = (False, w)"
| "first_success sys (cmd # cmds) w =
     (case run_command sys cmd w of
        (result, w1) \<Rightarrow> if success result then (True, w1) else first_success sys cmds w1)"

definition attempt_generic_fix :: "'w os \<Rightarrow> failure \<Rightarrow> 'w \<Rightarrow> bool \<times> 'w" where
  "attempt_generic_fix sys failure w =
     (if f_type failure = ''lint_error''
      then first_success sys
             [''npm run lint -- --fix'', ''ruff check --fix'',
              ''autopep8 --in-place --recursive .''] w
      else (False, w))"


section \<open>betty-auto-test-fix.py: one verification pass\<close>

text \<open>
  An entry of \<open>test_configs\<close>. The entry of \<open>docker\<close> has no lint and no type commands,
  and \<open>config.get(..., [])\<close> reads them as empty; an unknown project type has the empty
  configuration.
\<close>

record 'w config =
  test_commands :: "string list"
  lint_commands :: "string list"
  type_commands :: "string list"
  build_commands :: "string list"
  common_fixes :: "(string \<times> (failure \<Rightarrow> 'w \<Rightarrow> bool \<times> 'w)) list"

definition test_configs :: "'w os \<Rightarrow> pylib \<Rightarrow> (string \<times> 'w config) list" where
  "test_configs sys py =
     [(''javascript'',
       \<lparr>test_commands = [''npm test'', ''npm run test:unit'', ''npm run test:integration''],
        lint_commands = [''npm run lint'', ''npm run eslint''],
        type_commands = [''npm run type-check'', ''npm run tsc''],
        build_commands = [''npm run build''],
        common_fixes =
          [(''missing_import'', fix_missing_import_js sys),
           (''syntax_error'', fix_syntax_error_js sys py),
           (''type_error'', fix_type_error_ts sys),
           (''lint_error'', fix_lint_error_js sys)]\<rparr>),
      (''python'',
       \<lparr>test_commands = [''pytest'', ''python -m pytest'', ''python -m unittest''],
        lint_commands = [''ruff check'', ''flake8'', ''pylint''],
        type_commands = [''mypy .''],
        build_commands = [''python setup.py build''],
        common_fixes =
          [(''import_error'', fix_import_error_py sys py),
           (''syntax_error'', fix_syntax_error_py sys py),
           (''indentation_error'', fix_indentation_error_py sys),
           (''type_error'', fix_type_error_py)]\<rparr>),
      (''docker'',
       \<lparr>test_commands = [''docker-compose config''],
        lint_commands = [],
        type_commands = [],
        build_commands = [''docker-compose build'', ''docker build .''],
        common_fixes =
          [(''yaml_error'', fix_yaml_error sys),
           (''dockerfile_error'', fix_dockerfile_error)]\<rparr>)]"

definition empty_config :: "'w config" where
  "empty_config =
     \<lparr>test_commands = [], lint_commands = [], type_commands = [], build_commands = [],
      common_fixes = []\<rparr>"

definition get_config :: "'w os \<Rightarrow> pylib \<Rightarrow> string \<Rightarrow> 'w config" where
  "get_config sys py ptype =
     (case map_of (test_configs sys py) ptype of
        None \<Rightarrow> empty_config
      | Some config \<Rightarrow> config)"

definition run_all_tests ::
  "'w os \<Rightarrow> pylib \<Rightarrow> string \<Rightarrow> string list \<Rightarrow> 'w \<Rightarrow> test_results \<times> 'w" where
  "run_all_tests sys py ptype changed w =
     (let results = \<lparr>project_type = ptype, changed_files = changed, tests_run = [],
                      failures = [], has_failures = False\<rparr>;
          config = get_config sys py ptype
      in case run_stages sys ''test'' (parse_test_failures py)
                (test_commands config) results w of
           (results, w1) \<Rightarrow>
      case run_stages sys ''lint'' (parse_lint_failures py)
                (lint_commands config) results w1 of
           (results, w2) \<Rightarrow>
      case run_stages sys ''type-check'' (parse_type_failures py)
                (type_commands config) results w2 of
           (results, w3) \<Rightarrow>
      case run_stages sys ''build'' parse_build_failures
                (build_commands config) results w3 of
           (results, w4) \<Rightarrow>
             (results\<lparr>has_failures := (length (failures results) > 0)\<rparr>, w4))"

section \<open>betty-auto-test-fix.py: attempting the fixes\<close>

text \<open>
  What the hook writes outside the project: the fix history (\<open>log_fix\<close> appends a line
  to it and may raise), the test report (\<open>save_test_report\<close>, which may raise too) and
  the notification service (\<open>requests.post\<close> under \<open>except: pass\<close>, so it never
  raises). A notification carries the numbers its text is made of.
\<close>

datatype notification =
    AutoFixSuccess nat
  | AutoFixPartial nat nat
  | AutoFixManual "failure list"

record 'w sinks =
  log_fix :: "failure \<Rightarrow> string \<Rightarrow> 'w \<Rightarrow> (exn + unit) \<times> 'w"
  save_test_report :: "test_results \<Rightarrow> 'w \<Rightarrow> (exn + unit) \<times> 'w"
  post_ntfy :: "notification \<Rightarrow> 'w \<Rightarrow> 'w"

record fix_results =
  attempted :: nat
  fixed :: "failure list"
  failed :: "failure list"
  fixed_count :: nat
  all_fixed :: bool

definition mark_fixed :: "failure \<Rightarrow> fix_results \<Rightarrow> fix_results" where
  "mark_fixed failure fr =
     fr\<lparr>fixed := fixed fr @ [failure], fixed_count := fixed_count fr + 1\<rparr>"

definition mark_failed :: "failure \<Rightarrow> fix_results \<Rightarrow> fix_results" where
  "mark_failed failure fr = fr\<lparr>failed := failed fr @ [failure]\<rparr>"

text \<open>
  The body of the loop of \<open>attempt_fixes\<close> for one failure. A failure that is not
  fixable is skipped by \<open>continue\<close>. The only thing that can raise here is \<open>log_fix\<close>.
\<close>

definition attempt_fix ::
  "'w os \<Rightarrow> 'w sinks \<Rightarrow> (string \<times> (failure \<Rightarrow> 'w \<Rightarrow> bool \<times> 'w)) list \<Rightarrow>
   failure \<Rightarrow> fix_results \<Rightarrow> 'w \<Rightarrow> (exn + fix_results) \<times> 'w" where
  "attempt_fix sys sk fixers failure fr w =
     (if \<not> f_fixable failure then (Inr fr, w)
      else
        (let fr = fr\<lparr>attempted := attempted fr + 1\<rparr>
         in case map_of fixers (f_type failure) of
              Some fixer \<Rightarrow>
                (case fixer failure w of
                   (True, w1) \<Rightarrow>
                     (case log_fix sk failure ''success'' w1 of
                        (Inl e, w2) \<Rightarrow> (Inl e, w2)
                      | (Inr u, w2) \<Rightarrow> (Inr (mark_fixed failure fr), w2))
                 | (False, w1) \<Rightarrow>
                     (case log_fix sk failure ''failed'' w1 of
                        (Inl e, w2) \<Rightarrow> (Inl e, w2)
                      | (Inr u, w2) \<Rightarrow> (Inr (mark_failed failure fr), w2)))
            | None \<Rightarrow>
                (case attempt_generic_fix sys failure w of
                   (True, w1) \<Rightarrow> (Inr (mark_fixed failure fr), w1)
                 | (False, w1) \<Rightarrow> (Inr (mark_failed failure fr), w1))))"

fun attempt_each ::
  "'w os \<Rightarrow> 'w sinks \<Rightarrow> (string \<times> (failure \<Rightarrow> 'w \<Rightarrow> bool \<times> 'w)) list \<Rightarrow>
   failure list \<Rightarrow> fix_results \<Rightarrow> 'w \<Rightarrow> (exn + fix_results) \<times> 'w" where
  "attempt_each sys sk fixers [] fr w = (Inr fr, w)"
| "attempt_each sys sk fixers (failure # rest) fr w =
     (case attempt_fix sys sk fixers failure fr w of
        (Inl e, w1) \<Rightarrow> (Inl e, w1)
      | (Inr fr1, w1) \<Rightarrow> attempt_each sys sk fixers rest fr1 w1)"

definition attempt_fixes ::
  "'w os \<Rightarrow> pylib \<Rightarrow> 'w sinks \<Rightarrow> test_results \<Rightarrow> string \<Rightarrow> string list \<Rightarrow> 'w \<Rightarrow>
   (exn + fix_results) \<times> 'w" where
  "attempt_fixes sys py sk results ptype changed w =
     (let fr0 = \<lparr>attempted = 0, fixed = [], failed = [], fixed_count = 0,
                  all_fixed = False\<rparr>;
          fixers = common_fixes (get_config sys py ptype)
      in case attempt_each sys sk fixers (failures results) fr0 w of
           (Inl e, w1) \<Rightarrow> (Inl e, w1)
         | (Inr fr, w1) \<Rightarrow>
             (Inr (fr\<lparr>all_fixed := (fixed_count fr = length (failures results))\<rparr>), w1))"


text \<open>
  What the fixers report in a run of \<open>attempt_fixes\<close>, to compare \<open>all_fixed\<close> with.
  \<open>fixer_report\<close> is the call whose value the loop tests: the fixer registered for the
  type of the failure, or \<open>attempt_generic_fix\<close> where none is. \<open>fixer_reports\<close> is the
  list of these values for the failures in turn, each call made in the world the calls
  and the log entries before it left; a failure that is not fixable has no call, which
  counts as no report of a fix.
\<close>

definition fixer_report ::
  "'w os \<Rightarrow> (string \<times> (failure \<Rightarrow> 'w \<Rightarrow> bool \<times> 'w)) list \<Rightarrow> failure \<Rightarrow> 'w \<Rightarrow> bool \<times> 'w" where
  "fixer_report sys fixers failure w =
     (case map_of fixers (f_type failure) of
        Some fixer \<Rightarrow> fixer failure w
      | None \<Rightarrow> attempt_generic_fix sys failure w)"

fun fixer_reports ::
  "'w os \<Rightarrow> 'w sinks \<Rightarrow> (string \<times> (failure \<Rightarrow> 'w \<Rightarrow> bool \<times> 'w)) list \<Rightarrow>
   failure list \<Rightarrow> 'w \<Rightarrow> bool list" where
  "fixer_reports sys sk fixers [] w = []"
| "fixer_reports sys sk fixers (failure # rest) w =
     (if \<not> f_fixable failure then False # fixer_reports sys sk fixers rest w
      else (case fixer_report sys fixers failure w of
              (reported, w1) \<Rightarrow>
                reported # fixer_reports sys sk fixers rest
                  (if map_of fixers (f_type failure) = None then w1
                   else snd (log_fix sk failure (if reported then ''success'' else ''failed'') w1))))"

section \<open>betty-auto-test-fix.py: the entry point\<close>

text \<open>
  The hook reads a JSON object from standard input. The input of
  \<open>run_comprehensive_test\<close> is \<open>Inl\<close> an exception where \<open>json.load\<close> or one of the
  three \<open>hook_data.get\<close> raises, which is before anything is printed, and \<open>hook_data\<close>
  otherwise. Its \<open>tools_used\<close> is the list of the tool calls, or \<open>Inl\<close> the exception
  that \<open>extract_changed_files\<close> raises on it, where it is no list of objects of the
  shape that method reads.
\<close>

record tool_use =
  tu_name :: "string option"
  tu_file_path :: "string option"

record hook_data =
  session_id :: string
  tools_used :: "exn + tool_use list"
  original_prompt :: string

definition betty_dir :: string where
  "betty_dir = ''/home/jarvis/projects/Betty''"

text \<open>\<open>max_fix_attempts\<close> is set by \<open>__init__\<close>; no method reads it.\<close>

definition max_fix_attempts :: nat where
  "max_fix_attempts = 3"

definition detect_project_type :: "'w os \<Rightarrow> 'w \<Rightarrow> string" where
  "detect_project_type sys w =
     (if path_exists sys (betty_dir @ ''/package.json'') w then ''javascript''
      else if path_exists sys (betty_dir @ ''/requirements.txt'') w
              \<or> path_exists sys (betty_dir @ ''/setup.py'') w then ''python''
      else if path_exists sys (betty_dir @ ''/docker-compose.yml'') w then ''docker''
      else if rglob_count sys ''*.js'' w + rglob_count sys ''*.ts'' w > rglob_count sys ''*.py'' w
      then ''javascript''
      else ''python'')"

fun extract_changed_files_from :: "string list \<Rightarrow> tool_use list \<Rightarrow> string list" where
  "extract_changed_files_from changed [] = changed"
| "extract_changed_files_from changed (tool # tools) =
     (if tu_name tool \<in> set [Some ''Edit'', Some ''MultiEdit'', Some ''Write'']
         \<and> \<not> falsy (tu_file_path tool)
         \<and> get_str (tu_file_path tool) [] \<notin> set changed
      then extract_changed_files_from (changed @ [get_str (tu_file_path tool) []]) tools
      else extract_changed_files_from changed tools)"

definition extract_changed_files :: "exn + tool_use list \<Rightarrow> exn + string list" where
  "extract_changed_files tools =
     (case tools of
        Inl e \<Rightarrow> Inl e
      | Inr tool_list \<Rightarrow> Inr (extract_changed_files_from [] tool_list))"

text \<open>The lines the hook prints on standard error, one constructor per \<open>print\<close>.\<close>

datatype message =
    Starting string
  | FoundIssues nat
  | AllFixedVerifying
  | AllPassingReady
  | FixedRemain nat nat
  | CouldNotFix
  | NoFixesNeeded
  | TestFixError exn

text \<open>
  The branch of \<open>run_comprehensive_test\<close> under \<open>if test_results['has_failures']\<close>:
  one call of \<open>attempt_fixes\<close>, and one more verification pass if it reports that all
  was fixed. The result is the exception that left the branch, if any, with the lines
  printed up to there.
\<close>

definition fix_and_verify ::
  "'w os \<Rightarrow> pylib \<Rightarrow> 'w sinks \<Rightarrow> test_results \<Rightarrow> string \<Rightarrow> string list \<Rightarrow> 'w \<Rightarrow>
   (exn option \<times> message list) \<times> 'w" where
  "fix_and_verify sys py sk results ptype changed w =
     (case attempt_fixes sys py sk results ptype changed w of
        (Inl e, w1) \<Rightarrow> ((Some e, [FoundIssues (length (failures results))]), w1)
      | (Inr fr, w1) \<Rightarrow>
          if all_fixed fr then
            (case run_all_tests sys py ptype changed w1 of
               (final, w2) \<Rightarrow>
                 if \<not> has_failures final then
                   ((None, [FoundIssues (length (failures results)), AllFixedVerifying,
                            AllPassingReady]),
                    post_ntfy sk (AutoFixSuccess (fixed_count fr)) w2)
                 else
                   ((None, [FoundIssues (length (failures results)), AllFixedVerifying,
                            FixedRemain (fixed_count fr) (length (failures final))]),
                    post_ntfy sk (AutoFixPartial (fixed_count fr) (length (failures final))) w2))
          else
            ((None, [FoundIssues (length (failures results)), CouldNotFix]),
             post_ntfy sk (AutoFixManual (failures results)) w1))"

text \<open>
  The \<open>try\<close> block of \<open>run_comprehensive_test\<close> once the input has been read: the
  project type is detected and announced before the changed files are extracted.
\<close>

definition test_and_fix ::
  "'w os \<Rightarrow> pylib \<Rightarrow> 'w sinks \<Rightarrow> hook_data \<Rightarrow> 'w \<Rightarrow> (exn option \<times> message list) \<times> 'w" where
  "test_and_fix sys py sk hook w =
     (let ptype = detect_project_type sys w
      in case extract_changed_files (tools_used hook) of
           Inl e \<Rightarrow> ((Some e, [Starting ptype]), w)
         | Inr changed \<Rightarrow>
      (case run_all_tests sys py ptype changed w of
           (results, w1) \<Rightarrow>
             (case (if has_failures results
                    then fix_and_verify sys py sk results ptype changed w1
                    else ((None, [NoFixesNeeded]), w1)) of
                ((Some e, msgs), w2) \<Rightarrow> ((Some e, Starting ptype # msgs), w2)
              | ((None, msgs), w2) \<Rightarrow>
                  (case save_test_report sk results w2 of
                     (Inl e, w3) \<Rightarrow> ((Some e, Starting ptype # msgs), w3)
                   | (Inr u, w3) \<Rightarrow> ((None, Starting ptype # msgs), w3)))))"

text \<open>
  \<open>run_comprehensive_test\<close>: whatever the \<open>try\<close> block raises is printed, and the
  method returns 0. The result is the exit code with the lines on standard error.
\<close>

definition run_comprehensive_test ::
  "'w os \<Rightarrow> pylib \<Rightarrow> 'w sinks \<Rightarrow> exn + hook_data \<Rightarrow> 'w \<Rightarrow> (int \<times> message list) \<times> 'w" where
  "run_comprehensive_test sys py sk stdin w =
     (case stdin of
        Inl e \<Rightarrow> ((0, [TestFixError e]), w)
      | Inr hook \<Rightarrow>
          (case test_and_fix sys py sk hook w of
             ((Some e, msgs), w1) \<Rightarrow> ((0, msgs @ [TestFixError e]), w1)
           | ((None, msgs), w1) \<Rightarrow> ((0, msgs), w1)))"

text \<open>
  A round of remediation is one call of \<open>attempt_fixes\<close>, announced by the line
  \<open>Found n issues. Attempting automatic fixes...\<close>; a re-verification pass is announced
  by \<open>All issues fixed! Running final verification...\<close>.
\<close>

definition fix_rounds :: "message list \<Rightarrow> nat" where
  "fix_rounds msgs = length (filter (\<lambda>m. case m of FoundIssues n \<Rightarrow> True | _ \<Rightarrow> False) msgs)"

definition reverifications :: "message list \<Rightarrow> nat" where
  "reverifications msgs = length (filter (\<lambda>m. m = AllFixedVerifying) msgs)"


section \<open>smart-completion-guardian.py: the checks\<close>

text \<open>
  The guardian reads the tool call from standard input: \<open>ti_tool_name\<close> is
  \<open>tool_input.get('tool_name')\<close> and \<open>ti_command\<close> the \<open>command\<close> inside its
  \<open>tool_input\<close>, \<open>None\<close> where the key is missing.
\<close>

record tool_input =
  ti_tool_name :: "string option"
  ti_command :: "string option"

definition completion_patterns :: "string list" where
  "completion_patterns =
     [''all done'', ''complete'', ''finished'', ''ready'', ''all set'', ''that's it'',
      ''task complete'']"

definition should_check :: "tool_input \<Rightarrow> bool" where
  "should_check ti =
     (if ti_tool_name ti \<noteq> Some ''Bash'' then False
      else (let command = lower (get_str (ti_command ti) [])
            in if contains ''echo'' command \<or> contains ''print'' command
               then list_ex (\<lambda>pattern. contains pattern (lower command)) completion_patterns
               else False))"

text \<open>An issue is a dictionary as well; a warning of the git check is one too.\<close>

record issue =
  i_type :: string
  i_file :: "string option"
  i_line :: "string option"
  i_column :: "string option"
  i_message :: string
  i_fix_hint :: string

text \<open>\<open>str_nat n\<close> is \<open>str(n)\<close>, the decimal digits of a number.\<close>

definition digit_char :: "nat \<Rightarrow> char" where
  "digit_char d = ''0123456789'' ! d"

function str_nat :: "nat \<Rightarrow> string" where
  "str_nat n = (if n < 10 then [digit_char n] else str_nat (n div 10) @ [digit_char (n mod 10)])"
  by pat_completeness auto
termination
  by (relation "measure id") auto

definition typescript_issue :: "string \<times> string \<times> string \<times> string \<Rightarrow> issue" where
  "typescript_issue m =
     (case m of (file_path, ln, col, msg) \<Rightarrow>
        \<lparr>i_type = ''typescript'', i_file = Some file_path, i_line = Some ln,
         i_column = Some col, i_message = msg,
         i_fix_hint = ''Edit '' @ file_path @ '':'' @ ln @ '' to fix: '' @ msg\<rparr>)"

definition check_javascript :: "'w os \<Rightarrow> pylib \<Rightarrow> 'w \<Rightarrow> (exn + issue list) \<times> 'w" where
  "check_javascript sys py w =
     (if path_exists sys (betty_dir @ ''/package.json'') w then
        (case subprocess_run sys
                ''npm run type-check 2>&1 || npx tsc --noEmit 2>&1 || true'' (Some 10) w of
           (Inl e, w1) \<Rightarrow> (Inl e, w1)
         | (Inr result, w1) \<Rightarrow>
             if cp_stdout result \<noteq> [] \<or> cp_stderr result \<noteq> [] then
               (Inr (map typescript_issue
                       (take 5 (findall4 py TscError (cp_stdout result @ cp_stderr result)))),
                w1)
             else (Inr [], w1))
      else (Inr [], w))"

definition python_issue :: "string \<times> string \<Rightarrow> string \<Rightarrow> issue" where
  "python_issue m err =
     (case m of (file_path, ln) \<Rightarrow>
        \<lparr>i_type = ''python_syntax'', i_file = Some file_path, i_line = Some ln,
         i_column = None, i_message = (case split_on (CHR 0x0A) err of [] \<Rightarrow> [] | first # rest \<Rightarrow> first),
         i_fix_hint = ''Fix Python syntax at '' @ file_path @ '':'' @ ln\<rparr>)"

text \<open>
  The files \<open>check_python\<close> looks at: the command that finds them runs under a bare
  \<open>except\<close>, which leaves the list empty.
\<close>

definition recent_py_files :: "'w os \<Rightarrow> 'w \<Rightarrow> string list \<times> 'w" where
  "recent_py_files sys w =
     (case subprocess_run sys
             (''find . -name '' @ [CHR 0x22] @ ''*.py'' @ [CHR 0x22] @
              '' -mmin -10 2>/dev/null | head -5'') None w of
        (Inl e, w1) \<Rightarrow> ([], w1)
      | (Inr result, w1) \<Rightarrow>
          (if cp_stdout result \<noteq> [] then split_on (CHR 0x0A) (strip (cp_stdout result))
           else [], w1))"

fun compile_each ::
  "'w os \<Rightarrow> pylib \<Rightarrow> string list \<Rightarrow> issue list \<Rightarrow> 'w \<Rightarrow> (exn + issue list) \<times> 'w" where
  "compile_each sys py [] errors w = (Inr errors, w)"
| "compile_each sys py (py_file # rest) errors w =
     (if py_file \<noteq> [] then
        (case subprocess_run sys (''python3 -m py_compile '' @ py_file @ '' 2>&1'') None w of
           (Inl e, w1) \<Rightarrow> (Inl e, w1)
         | (Inr result, w1) \<Rightarrow>
             if cp_stderr result \<noteq> [] then
               (case search2 py PyCompile (cp_stderr result) of
                  Some m \<Rightarrow>
                    compile_each sys py rest (errors @ [python_issue m (cp_stderr result)]) w1
                | None \<Rightarrow> compile_each sys py rest errors w1)
             else compile_each sys py rest errors w1)
      else compile_each sys py rest errors w)"

definition check_python :: "'w os \<Rightarrow> pylib \<Rightarrow> 'w \<Rightarrow> (exn + issue list) \<times> 'w" where
  "check_python sys py w =
     (case recent_py_files sys w of
        (py_files, w1) \<Rightarrow> compile_each sys py py_files [] w1)"

definition check_docker :: "'w os \<Rightarrow> 'w \<Rightarrow> (exn + issue list) \<times> 'w" where
  "check_docker sys w =
     (if path_exists sys (betty_dir @ ''/docker-compose.yml'') w then
        (case subprocess_run sys ''docker-compose config -q 2>&1'' (Some 5) w of
           (Inl e, w1) \<Rightarrow> (Inl e, w1)
         | (Inr result, w1) \<Rightarrow>
             if cp_returncode result \<noteq> 0 then
               (Inr [\<lparr>i_type = ''docker_compose'', i_file = Some ''docker-compose.yml'',
                       i_line = None, i_column = None,
                       i_message = (if cp_stderr result \<noteq> [] then cp_stderr result
                                    else cp_stdout result),
                       i_fix_hint = ''Fix docker-compose.yml syntax - check YAML formatting''\<rparr>],
                w1)
             else (Inr [], w1))
      else (Inr [], w))"

definition lint_issue :: "string \<times> string \<times> string \<times> string \<Rightarrow> issue" where
  "lint_issue m =
     (case m of (file_path, ln, col, msg) \<Rightarrow>
        \<lparr>i_type = ''lint'', i_file = Some file_path, i_line = Some ln,
         i_column = Some col, i_message = msg,
         i_fix_hint = ''Run 'npm run lint -- --fix' or edit '' @ file_path @ '':'' @ ln\<rparr>)"

definition check_linting :: "'w os \<Rightarrow> pylib \<Rightarrow> 'w \<Rightarrow> (exn + issue list) \<times> 'w" where
  "check_linting sys py w =
     (if path_exists sys (betty_dir @ ''/package.json'') w then
        (case subprocess_run sys ''npm run lint 2>&1 | head -20'' (Some 10) w of
           (Inl e, w1) \<Rightarrow> (Inl e, w1)
         | (Inr result, w1) \<Rightarrow>
             if contains ''error'' (lower (cp_stdout result)) then
               (Inr (map lint_issue (take 3 (findall4 py NpmLint (cp_stdout result)))), w1)
             else (Inr [], w1))
      else (Inr [], w))"

definition git_warning :: "nat \<Rightarrow> issue" where
  "git_warning modified_files =
     \<lparr>i_type = ''git_warning'', i_file = None, i_line = None, i_column = None,
      i_message = str_nat modified_files @ '' files have uncommitted changes'',
      i_fix_hint = ''Consider committing changes before marking complete''\<rparr>"

definition check_git_status :: "'w os \<Rightarrow> 'w \<Rightarrow> (exn + issue list) \<times> 'w" where
  "check_git_status sys w =
     (case subprocess_run sys ''git status --porcelain'' None w of
        (Inl e, w1) \<Rightarrow> (Inl e, w1)
      | (Inr result, w1) \<Rightarrow>
          if cp_stdout result \<noteq> [] then
            (let modified_files = length (split_on (CHR 0x0A) (strip (cp_stdout result)))
             in if modified_files > 10 then (Inr [git_warning modified_files], w1)
                else (Inr [], w1))
          else (Inr [], w1))"

text \<open>
  \<open>run_checks\<close>: the five checks in turn, each adding what it found. None of them
  catches what \<open>subprocess.run\<close> raises (but for the search of \<open>check_python\<close>), so
  \<open>run_checks\<close> may raise.
\<close>

definition run_checks :: "'w os \<Rightarrow> pylib \<Rightarrow> 'w \<Rightarrow> (exn + issue list) \<times> 'w" where
  "run_checks sys py w =
     (case check_javascript sys py w of
        (Inl e, w1) \<Rightarrow> (Inl e, w1)
      | (Inr js_errors, w1) \<Rightarrow>
     (case check_python sys py w1 of
        (Inl e, w2) \<Rightarrow> (Inl e, w2)
      | (Inr py_errors, w2) \<Rightarrow>
     (case check_docker sys w2 of
        (Inl e, w3) \<Rightarrow> (Inl e, w3)
      | (Inr docker_errors, w3) \<Rightarrow>
     (case check_linting sys py w3 of
        (Inl e, w4) \<Rightarrow> (Inl e, w4)
      | (Inr lint_errors, w4) \<Rightarrow>
     (case check_git_status sys w4 of
        (Inl e, w5) \<Rightarrow> (Inl e, w5)
      | (Inr warnings, w5) \<Rightarrow>
          (Inr (js_errors @ py_errors @ docker_errors @ lint_errors @ warnings), w5))))))"


section \<open>smart-completion-guardian.py: blocking a completion\<close>

text \<open>
  The guardian blocks by printing the JSON object
  \<open>{"action": "block", "message": format_block_message(issues)}\<close> on standard output,
  and allows by printing nothing there. The standard output of a run is therefore
  \<open>Some issues\<close>, the issues the block message is drawn from, or \<open>None\<close>. Each branch
  then appends a line to the log of completions, which may raise.
\<close>

datatype guardian_message =
    Checking
  | Blocked nat
  | AllChecksPassed
  | GuardianError exn

record guardian_result =
  exit_code :: int
  stdout :: "issue list option"
  stderr :: "guardian_message list"

definition allowed :: "guardian_result \<Rightarrow> bool" where
  "allowed r = (stdout r = None)"

text \<open>The \<open>try\<close> block of \<open>check_completion\<close> from \<open>run_checks\<close> on.\<close>

definition check_and_report ::
  "'w os \<Rightarrow> pylib \<Rightarrow> (issue list \<Rightarrow> bool \<Rightarrow> 'w \<Rightarrow> (exn + unit) \<times> 'w) \<Rightarrow> 'w \<Rightarrow>
   guardian_result \<times> 'w" where
  "check_and_report sys py append_log w =
     (case run_checks sys py w of
        (Inl e, w1) \<Rightarrow>
          (\<lparr>exit_code = 0, stdout = None, stderr = [Checking, GuardianError e]\<rparr>, w1)
      | (Inr issues, w1) \<Rightarrow>
          if issues \<noteq> [] then
            (case append_log issues True w1 of
               (Inl e, w2) \<Rightarrow>
                 (\<lparr>exit_code = 0, stdout = Some issues,
                   stderr = [Checking, GuardianError e]\<rparr>, w2)
             | (Inr u, w2) \<Rightarrow>
                 (\<lparr>exit_code = 0, stdout = Some issues,
                   stderr = [Checking, Blocked (length issues)]\<rparr>, w2))
          else
            (case append_log [] False w1 of
               (Inl e, w2) \<Rightarrow>
                 (\<lparr>exit_code = 0, stdout = None,
                   stderr = [Checking, AllChecksPassed, GuardianError e]\<rparr>, w2)
             | (Inr u, w2) \<Rightarrow>
                 (\<lparr>exit_code = 0, stdout = None, stderr = [Checking, AllChecksPassed]\<rparr>, w2)))"

text \<open>
  \<open>check_completion\<close>: the input is \<open>Inl\<close> an exception where reading it raises. A tool
  call that is no completion attempt is let through without any check.
\<close>

definition check_completion ::
  "'w os \<Rightarrow> pylib \<Rightarrow> (issue list \<Rightarrow> bool \<Rightarrow> 'w \<Rightarrow> (exn + unit) \<times> 'w) \<Rightarrow>
   exn + tool_input \<Rightarrow> 'w \<Rightarrow> guardian_result \<times> 'w" where
  "check_completion sys py append_log stdin w =
     (case stdin of
        Inl e \<Rightarrow> (\<lparr>exit_code = 0, stdout = None, stderr = [GuardianError e]\<rparr>, w)
      | Inr ti \<Rightarrow>
          if \<not> should_check ti then (\<lparr>exit_code = 0, stdout = None, stderr = []\<rparr>, w)
          else check_and_report sys py append_log w)"

text \<open>
  What \<open>git status --porcelain\<close> prints for a list of entries: one line for each, ended
  by a newline. An entry is a status, a space and a path: it has no newline in it and a
  character that is not white space.
\<close>

definition porcelain :: "string list \<Rightarrow> string" where
  "porcelain entries = concat (map (\<lambda>e. e @ [CHR 0x0A]) entries)"

definition status_entry :: "string \<Rightarrow> bool" where
  "status_entry e = (CHR 0x0A \<notin> set e \<and> \<not> list_all is_space e)"


section \<open>Example worlds\<close>

text \<open>
  Concrete worlds to run the hooks in. The world is the list of the commands run and the
  notifications posted so far. In \<open>demo_os marker bad res\<close> the project directory holds
  the one file \<open>marker\<close>, the command \<open>bad\<close> always ends as \<open>res\<close> says, and every other
  command exits with 0 and prints nothing; no file can be read.
\<close>

definition demo_os :: "string \<Rightarrow> string \<Rightarrow> exn + completed_process \<Rightarrow> string list os" where
  "demo_os marker bad res =
     \<lparr>subprocess_run = (\<lambda>cmd t w.
        (if cmd = bad then res
         else Inr \<lparr>cp_returncode = 0, cp_stdout = [], cp_stderr = []\<rparr>, w @ [cmd])),
      path_exists = (\<lambda>p w. p = betty_dir @ marker),
      rglob_count = (\<lambda>p w. 0),
      read_file = (\<lambda>p w. (Inl (Exception ''No such file or directory''), w)),
      read_lines = (\<lambda>p w. (Inl (Exception ''No such file or directory''), w)),
      write_file = (\<lambda>p c w. (Inl (Exception ''No such file or directory''), w)),
      write_lines = (\<lambda>p c w. (Inl (Exception ''No such file or directory''), w))\<rparr>"

definition exits :: "int \<Rightarrow> string \<Rightarrow> exn + completed_process" where
  "exits rc out = Inr \<lparr>cp_returncode = rc, cp_stdout = out, cp_stderr = []\<rparr>"

text \<open>
  The builtin \<open>int\<close> on a text of code points below 256: white space around an optional
  sign and decimal digits, which single underscores may separate.
\<close>

definition int_space :: "char \<Rightarrow> bool" where
  "int_space c = (c \<in> set [CHR 0x09, CHR 0x0A, CHR 0x0B, CHR 0x0C, CHR 0x0D, CHR 0x20,
                            CHR 0x85, CHR 0xA0])"

fun decimal_from :: "nat \<Rightarrow> bool \<Rightarrow> string \<Rightarrow> nat option" where
  "decimal_from acc after_digit [] = (if after_digit then Some acc else None)"
| "decimal_from acc after_digit (c # cs) =
     (if c \<in> set ''0123456789'' then decimal_from (10 * acc + (of_char c - 48)) True cs
      else if c = CHR ''_'' \<and> after_digit then decimal_from acc False cs
      else None)"

definition python_int :: "string \<Rightarrow> int option" where
  "python_int s =
     (case rev (dropWhile int_space (rev (dropWhile int_space s))) of
        [] \<Rightarrow> None
      | c # cs \<Rightarrow>
          if c = CHR ''-'' then map_option (\<lambda>n. - int n) (decimal_from 0 False cs)
          else if c = CHR ''+'' then map_option int (decimal_from 0 False cs)
          else map_option int (decimal_from 0 False (c # cs)))"

text \<open>
  What \<open>re.findall\<close> returns on the two outputs the examples use: \<open>Error: boom\<close> matches
  the last test pattern only, and the line \<open>app.js:12:3: error: missing semicolon\<close>
  matches both lint patterns.
\<close>

definition demo_py :: pylib where
  "demo_py =
     \<lparr>findall1 = (\<lambda>p s. if p = ErrorMsg \<and> s = ''Error: boom'' then [''boom''] else []),
      findall2 = (\<lambda>p s. []),
      findall3 = (\<lambda>p s. []),
      findall4 = (\<lambda>p s.
        if s \<noteq> ''app.js:12:3: error: missing semicolon'' then []
        else if p = ESLint then [(''app.js'', ''12'', ''3'', ''missing semicolon'')]
        else if p = Ruff then [(''app.js'', ''12'', ''3'', ''error: missing semicolon'')]
        else []),
      search1 = (\<lambda>p s. None),
      search2 = (\<lambda>p s. None),
      int_of_str = python_int\<rparr>"

definition demo_sinks :: "string list sinks" where
  "demo_sinks =
     \<lparr>log_fix = (\<lambda>failure status w. (Inr (), w)),
      save_test_report = (\<lambda>results w. (Inr (), w)),
      post_ntfy = (\<lambda>n w. w @ [case n of
                                  AutoFixSuccess k \<Rightarrow> ''ntfy Auto-Fix: Success''
                                | AutoFixPartial k r \<Rightarrow> ''ntfy Auto-Fix: Partial''
                                | AutoFixManual fs \<Rightarrow> ''ntfy Auto-Fix: Manual Required''])\<rparr>"

definition demo_hook :: hook_data where
  "demo_hook = \<lparr>session_id = ''s1'', tools_used = Inr [], original_prompt = ''fix it''\<rparr>"

text \<open>An input whose \<open>tools_used\<close> is a number.\<close>

definition bad_hook :: hook_data where
  "bad_hook =
     \<lparr>session_id = ''s1'', tools_used = Inl (Exception '''int' object is not iterable''),
      original_prompt = ''fix it''\<rparr>"

definition demo_log :: "issue list \<Rightarrow> bool \<Rightarrow> string list \<Rightarrow> (exn + unit) \<times> string list" where
  "demo_log issues blocked w = (Inr (), w)"

definition demo_tool_input :: tool_input where
  "demo_tool_input = \<lparr>ti_tool_name = Some ''Bash'', ti_command = Some ''echo All done''\<rparr>"

text \<open>A Python project whose \<open>pytest\<close> run fails for good.\<close>

definition pytest_fails :: "string list os" where
  "pytest_fails = demo_os ''/requirements.txt'' ''pytest'' (exits 1 ''Error: boom'')"

text \<open>
  A JavaScript project whose lint run fails for good, while the linter's own fix mode
  exits with 0.
\<close>

definition lint_fails :: "string list os" where
  "lint_fails =
     demo_os ''/package.json'' ''npm run lint''
       (exits 1 ''app.js:12:3: error: missing semicolon'')"

text \<open>A JavaScript project whose build fails with an output no parser knows.\<close>

definition build_fails :: "string list os" where
  "build_fails = demo_os ''/package.json'' ''npm run build'' (exits 1 ''Module not found'')"


text \<open>
  The two failures the lint parser makes of the one line of the failing lint run, and the
  commands of one verification pass of a JavaScript project.
\<close>

definition lint_failure_1 :: failure where
  "lint_failure_1 = lint_error ''npm run lint'' (''app.js'', ''12'', ''3'', ''missing semicolon'')"

definition lint_failure_2 :: failure where
  "lint_failure_2 =
     lint_error ''npm run lint'' (''app.js'', ''12'', ''3'', ''error: missing semicolon'')"

definition first_pass :: "string list" where
  "first_pass = [''npm test'', ''npm run test:unit'', ''npm run test:integration'',
   ''npm run lint'', ''npm run eslint'', ''npm run type-check'',
   ''npm run tsc'', ''npm run build'']"

text \<open>A failure marked as not fixable, as no parser makes one, and a pass that found it.\<close>

definition manual_failure :: failure where
  "manual_failure =
     \<lparr>f_type = ''build_error'', f_command = ''npm run build'', f_details = None,
      f_file = None, f_line = None, f_column = None, f_message = Some ''Module not found'',
      f_fixable = False\<rparr>"

definition manual_results :: test_results where
  "manual_results =
     \<lparr>project_type = ''javascript'', changed_files = [], tests_run = [],
      failures = [manual_failure], has_failures = True\<rparr>"

text \<open>A type error of a file that cannot be read.\<close>

definition any_type_failure :: failure where
  "any_type_failure =
     type_error ''npm run tsc'' (''app.ts'', ''3'', ''Parameter x implicitly has an 'any' type'')"

text \<open>
  Worlds for the guardian: a project whose compose file is broken and the issue the
  docker check makes of it; a project whose type check runs into its timeout; and a
  project with eleven, or with ten, changed files that are not committed.
\<close>

definition compose_broken :: "string list os" where
  "compose_broken =
     demo_os ''/docker-compose.yml'' ''docker-compose config -q 2>&1''
       (exits 1 ''yaml: line 3: mapping values are not allowed here'')"

definition type_check_hangs :: "string list os" where
  "type_check_hangs =
     demo_os ''/package.json'' ''npm run type-check 2>&1 || npx tsc --noEmit 2>&1 || true''
       (Inl TimeoutExpired)"

definition compose_issue :: issue where
  "compose_issue =
     \<lparr>i_type = ''docker_compose'', i_file = Some ''docker-compose.yml'', i_line = None,
      i_column = None, i_message = ''yaml: line 3: mapping values are not allowed here'',
      i_fix_hint = ''Fix docker-compose.yml syntax - check YAML formatting''\<rparr>"

definition eleven_entries :: "string list" where
  "eleven_entries =
     map (\<lambda>name. '' M src/'' @ name @ ''.py'')
       [''a'', ''b'', ''c'', ''d'', ''e'', ''f'', ''g'', ''h'', ''i'', ''j'', ''k'']"

definition many_changes :: "string list os" where
  "many_changes =
     demo_os ''/setup.py'' ''git status --porcelain'' (exits 0 (porcelain eleven_entries))"

definition few_changes :: "string list os" where
  "few_changes =
     demo_os ''/setup.py'' ''git status --porcelain''
       (exits 0 (porcelain (take 10 eleven_entries)))"

text \<open>
  A project with ten changed files, one of them the Python file \<open>src/a.py\<close>, changed in
  the last minutes. Compiling that file leaves the directory \<open>src/__pycache__\<close>, which
  git lists as untracked from then on.
\<close>

definition find_recent_python :: string where
  "find_recent_python =
     ''find . -name '' @ [CHR 0x22] @ ''*.py'' @ [CHR 0x22] @ '' -mmin -10 2>/dev/null | head -5''"

definition compiling_project :: "string list os" where
  "compiling_project =
     \<lparr>subprocess_run = (\<lambda>cmd t w.
        (if cmd = find_recent_python then exits 0 (''./src/a.py'' @ [CHR 0x0A])
         else if cmd = ''git status --porcelain'' then
           exits 0 (porcelain (take 10 eleven_entries @
             (if ''python3 -m py_compile ./src/a.py 2>&1'' \<in> set w
              then [''?? src/__pycache__/''] else [])))
         else exits 0 [], w @ [cmd])),
      path_exists = (\<lambda>p w. False),
      rglob_count = (\<lambda>p w. 0),
      read_file = (\<lambda>p w. (Inl (Exception ''No such file or directory''), w)),
      read_lines = (\<lambda>p w. (Inl (Exception ''No such file or directory''), w)),
      write_file = (\<lambda>p c w. (Inl (Exception ''No such file or directory''), w)),
      write_lines = (\<lambda>p c w. (Inl (Exception ''No such file or directory''), w))\<rparr>"

section \<open>The remediation run is a single round\<close>

lemma fix_rounds_simps [simp]:
  "fix_rounds [] = 0"
  "fix_rounds (FoundIssues n # ms) = Suc (fix_rounds ms)"
  "fix_rounds (Starting p # ms) = fix_rounds ms"
  "fix_rounds (AllFixedVerifying # ms) = fix_rounds ms"
  "fix_rounds (AllPassingReady # ms) = fix_rounds ms"
  "fix_rounds (FixedRemain a b # ms) = fix_rounds ms"
  "fix_rounds (CouldNotFix # ms) = fix_rounds ms"
  "fix_rounds (NoFixesNeeded # ms) = fix_rounds ms"
  "fix_rounds (TestFixError e # ms) = fix_rounds ms"
  "fix_rounds (ms @ ms') = fix_rounds ms + fix_rounds ms'"
  by (simp_all add: fix_rounds_def)

lemma reverifications_simps [simp]:
  "reverifications [] = 0"
  "reverifications (FoundIssues n # ms) = reverifications ms"
  "reverifications (Starting p # ms) = reverifications ms"
  "reverifications (AllFixedVerifying # ms) = Suc (reverifications ms)"
  "reverifications (AllPassingReady # ms) = reverifications ms"
  "reverifications (FixedRemain a b # ms) = reverifications ms"
  "reverifications (CouldNotFix # ms) = reverifications ms"
  "reverifications (NoFixesNeeded # ms) = reverifications ms"
  "reverifications (TestFixError e # ms) = reverifications ms"
  "reverifications (ms @ ms') = reverifications ms + reverifications ms'"
  by (simp_all add: reverifications_def)

lemma fix_and_verify_rounds:
  "fix_rounds (snd (fst (fix_and_verify sys py sk results ptype changed w))) = 1
   \<and> reverifications (snd (fst (fix_and_verify sys py sk results ptype changed w))) \<le> 1"
  by (simp add: fix_and_verify_def split: prod.splits sum.splits)

lemma test_and_fix_msgs:
  assumes "extract_changed_files (tools_used hook) = Inr changed"
      and "run_all_tests sys py (detect_project_type sys w) changed w = (results, w1)"
  shows "snd (fst (test_and_fix sys py sk hook w)) =
           Starting (detect_project_type sys w) #
             (if has_failures results
              then snd (fst (fix_and_verify sys py sk results (detect_project_type sys w)
                               changed w1))
              else [NoFixesNeeded])"
  using assms
  by (simp add: test_and_fix_def Let_def split: prod.splits sum.splits option.splits)

lemma test_and_fix_bad_tools:
  assumes "extract_changed_files (tools_used hook) = Inl e"
  shows "test_and_fix sys py sk hook w = ((Some e, [Starting (detect_project_type sys w)]), w)"
  using assms by (simp add: test_and_fix_def Let_def)

lemma run_msgs:
  "\<exists>tail. snd (fst (run_comprehensive_test sys py sk (Inr hook) w)) =
            snd (fst (test_and_fix sys py sk hook w)) @ tail
          \<and> fix_rounds tail = 0 \<and> reverifications tail = 0"
  by (simp add: run_comprehensive_test_def split: prod.splits option.splits)

lemma run_exit_code: "fst (fst (run_comprehensive_test sys py sk stdin w)) = 0"
  by (simp add: run_comprehensive_test_def split: prod.splits option.splits sum.splits)

lemma run_rounds_exact:
  assumes "extract_changed_files (tools_used hook) = Inr changed"
      and "run_all_tests sys py (detect_project_type sys w) changed w = (results, w1)"
  shows "fix_rounds (snd (fst (run_comprehensive_test sys py sk (Inr hook) w))) =
           (if has_failures results then 1 else 0)"
    and "reverifications (snd (fst (run_comprehensive_test sys py sk (Inr hook) w))) \<le> 1"
proof -
  obtain tail where t: "snd (fst (run_comprehensive_test sys py sk (Inr hook) w)) =
            snd (fst (test_and_fix sys py sk hook w)) @ tail"
      "fix_rounds tail = 0" "reverifications tail = 0"
    using run_msgs [of sys py sk hook w] by blast
  show "fix_rounds (snd (fst (run_comprehensive_test sys py sk (Inr hook) w))) =
           (if has_failures results then 1 else 0)"
    using t fix_and_verify_rounds [of sys py sk results "detect_project_type sys w" changed w1]
    by (simp add: test_and_fix_msgs [OF assms])
  show "reverifications (snd (fst (run_comprehensive_test sys py sk (Inr hook) w))) \<le> 1"
    using t fix_and_verify_rounds [of sys py sk results "detect_project_type sys w" changed w1]
    by (simp add: test_and_fix_msgs [OF assms])
qed

lemma run_bad_tools:
  assumes "extract_changed_files (tools_used hook) = Inl e"
  shows "run_comprehensive_test sys py sk (Inr hook) w =
           ((0, [Starting (detect_project_type sys w), TestFixError e]), w)"
  by (simp add: run_comprehensive_test_def test_and_fix_bad_tools [OF assms])

text \<open>
  Claim C1, as the code has it. \<open>run_comprehensive_test\<close> always returns, with exit code
  0. It has no loop over rounds: it calls \<open>attempt_fixes\<close> once if the first
  verification pass found failures and not at all otherwise, and it verifies again at
  most once. So the number of rounds is at most 1, hence at most \<open>max_fix_attempts\<close>,
  whether the failures go away or not. Where the changed files cannot be extracted no
  pass runs at all.
\<close>

theorem remediation_is_one_round:
  "fst (fst (run_comprehensive_test sys py sk stdin w)) = 0
   \<and> fix_rounds (snd (fst (run_comprehensive_test sys py sk stdin w))) \<le> 1
   \<and> reverifications (snd (fst (run_comprehensive_test sys py sk stdin w))) \<le> 1
   \<and> fix_rounds (snd (fst (run_comprehensive_test sys py sk stdin w))) \<le> max_fix_attempts
   \<and> (stdin = Inr hook \<and> extract_changed_files (tools_used hook) = Inr changed \<longrightarrow>
        fix_rounds (snd (fst (run_comprehensive_test sys py sk stdin w))) =
          (if has_failures (fst (run_all_tests sys py (detect_project_type sys w) changed w))
           then 1 else 0))
   \<and> (stdin = Inr hook \<and> extract_changed_files (tools_used hook) = Inl e \<longrightarrow>
        fix_rounds (snd (fst (run_comprehensive_test sys py sk stdin w))) = 0)"
proof (cases stdin)
  case (Inl x)
  then show ?thesis
    by (simp add: run_comprehensive_test_def max_fix_attempts_def)
next
  case (Inr h)
  show ?thesis
  proof (cases "extract_changed_files (tools_used h)")
    case (Inl x)
    show ?thesis
      using run_bad_tools [OF Inl, of sys py sk w] Inr Inl
      by (auto simp: max_fix_attempts_def)
  next
    case c: (Inr ch)
    obtain results w1 where
      r: "run_all_tests sys py (detect_project_type sys w) ch w = (results, w1)"
      by (cases "run_all_tests sys py (detect_project_type sys w) ch w")
    show ?thesis
      using run_rounds_exact [OF c r, of sk] run_exit_code [of sys py sk stdin w] r Inr c
      by (auto simp: max_fix_attempts_def)
  qed
qed

theorem remediation_is_one_round_witness:
  "fst (fst (run_comprehensive_test pytest_fails demo_py demo_sinks (Inr demo_hook) [])) = 0
   \<and> fix_rounds (snd (fst (run_comprehensive_test pytest_fails demo_py demo_sinks
        (Inr demo_hook) []))) = 1
   \<and> has_failures (fst (run_all_tests pytest_fails demo_py (detect_project_type pytest_fails [])
                                   [] []))
   \<and> fix_rounds (snd (fst (run_comprehensive_test pytest_fails demo_py demo_sinks
        (Inr bad_hook) []))) = 0
   \<and> run_comprehensive_test pytest_fails demo_py demo_sinks (Inr bad_hook) [] =
       ((0, [Starting ''python'',
             TestFixError (Exception '''int' object is not iterable'')]), [])"
proof -
  have h: "has_failures (fst (run_all_tests pytest_fails demo_py
             (detect_project_type pytest_fails []) [] []))"
    by code_simp
  have c: "extract_changed_files (tools_used demo_hook) = Inr []"
    by code_simp
  have b: "extract_changed_files (tools_used bad_hook) =
             Inl (Exception '''int' object is not iterable'')"
    by code_simp
  have r: "run_comprehensive_test pytest_fails demo_py demo_sinks (Inr bad_hook) [] =
       ((0, [Starting ''python'',
             TestFixError (Exception '''int' object is not iterable'')]), [])"
    by code_simp
  show ?thesis
    using h c b r
      remediation_is_one_round [where sys = pytest_fails and py = demo_py and sk = demo_sinks
        and stdin = "Inr demo_hook" and w = "[]" and hook = demo_hook and changed = "[]"]
      remediation_is_one_round [where sys = pytest_fails and py = demo_py and sk = demo_sinks
        and stdin = "Inr bad_hook" and w = "[]" and hook = bad_hook
        and e = "Exception '''int' object is not iterable''"]
    by simp
qed

text \<open>
  Claim C1 as stated asks for exactly three rounds when the issues never resolve. In
  the project whose \<open>pytest\<close> run fails for good, one round runs: the eight commands of
  the pass run once, no fixer applies, and the hook stops, although a further pass
  would still find the failure.
\<close>

theorem three_rounds_counterexample:
  "max_fix_attempts = 3
   \<and> run_comprehensive_test pytest_fails demo_py demo_sinks (Inr demo_hook) [] =
       ((0, [Starting ''python'', FoundIssues 1, CouldNotFix]),
        [''pytest'', ''python -m pytest'', ''python -m unittest'', ''ruff check'',
         ''flake8'', ''pylint'', ''mypy .'', ''python setup.py build'',
         ''ntfy Auto-Fix: Manual Required''])
   \<and> fix_rounds [Starting ''python'', FoundIssues 1, CouldNotFix] = 1
   \<and> fix_rounds (snd (fst (run_comprehensive_test pytest_fails demo_py demo_sinks
         (Inr demo_hook) []))) \<noteq> max_fix_attempts
   \<and> has_failures (fst (run_all_tests pytest_fails demo_py ''python'' []
        [''pytest'', ''python -m pytest'', ''python -m unittest'', ''ruff check'',
         ''flake8'', ''pylint'', ''mypy .'', ''python setup.py build'',
         ''ntfy Auto-Fix: Manual Required'']))"
  by code_simp

section \<open>A stage that succeeded adds no failure\<close>

text \<open>
  Claim C3. For a command whose run succeeded, the loop body of \<open>run_all_tests\<close> leaves
  the list of failures as it was, whatever the output of the command is and whatever
  the parser of the stage would find in it.
\<close>

theorem stage_success_no_failures:
  "success res \<Longrightarrow> failures (record_stage kind parse cmd res results) = failures results"
  by (simp add: record_stage_def Let_def)

theorem stage_success_no_failures_witness:
  "parse_test_failures demo_py ''Error: boom'' ''pytest'' = [test_failure ''pytest'' [''boom'']]
   \<and> failures (record_stage ''test'' (parse_test_failures demo_py) ''pytest''
        \<lparr>success = True, cmd_output = ''Error: boom'', returncode = 0\<rparr>
        \<lparr>project_type = ''python'', changed_files = [], tests_run = [],
         failures = [], has_failures = False\<rparr>) = []"
proof -
  have p: "parse_test_failures demo_py ''Error: boom'' ''pytest'' =
             [test_failure ''pytest'' [''boom'']]"
    by (simp add: parse_test_failures_def demo_py_def)
  have s: "success \<lparr>success = True, cmd_output = ''Error: boom'', returncode = 0\<rparr>"
    by simp
  show ?thesis
    using p stage_success_no_failures [OF s, of "''test''" "parse_test_failures demo_py"
      "''pytest''" "\<lparr>project_type = ''python'', changed_files = [], tests_run = [],
         failures = [], has_failures = False\<rparr>"]
    by simp
qed

text \<open>
  So a loop of \<open>run_all_tests\<close> over commands that all succeed leaves the list of
  failures as it was.
\<close>

lemma run_stages_all_success:
  "\<forall>cmd\<in>set cmds. \<forall>w. success (fst (run_command sys cmd w)) \<Longrightarrow>
   failures (fst (run_stages sys kind parse cmds results w)) = failures results"
proof (induction cmds arbitrary: results w)
  case Nil
  then show ?case by simp
next
  case (Cons cmd cmds)
  obtain res w1 where r: "run_command sys cmd w = (res, w1)"
    by (cases "run_command sys cmd w")
  have s: "success res"
    using Cons.prems r by (metis fst_conv list.set_intros(1))
  have "failures (fst (run_stages sys kind parse cmds (record_stage kind parse cmd res results) w1))
          = failures (record_stage kind parse cmd res results)"
    using Cons.IH Cons.prems by simp
  then show ?case
    using r s by (simp add: record_stage_def Let_def)
qed

section \<open>Running a command never raises\<close>

text \<open>
  Claim C4. \<open>run_command\<close> returns a result whatever \<open>subprocess.run\<close> does: the
  result of the process when it ran to its end; on a timeout a failure with return code
  -1 and an output that says the command timed out; on any other exception a failure
  with return code -1 and the message of the exception as output.
\<close>

theorem run_command_never_raises:
  "(subprocess_run sys cmd (Some 60) w = (Inr r, w') \<longrightarrow>
      run_command sys cmd w =
        (\<lparr>success = (cp_returncode r = 0), cmd_output = cp_stdout r @ cp_stderr r,
          returncode = cp_returncode r\<rparr>, w'))
   \<and> (subprocess_run sys cmd (Some 60) w = (Inl TimeoutExpired, w') \<longrightarrow>
      run_command sys cmd w =
        (\<lparr>success = False, cmd_output = ''Command timed out after 60 seconds'',
          returncode = - 1\<rparr>, w'))
   \<and> (subprocess_run sys cmd (Some 60) w = (Inl (Exception m), w') \<longrightarrow>
      run_command sys cmd w = (\<lparr>success = False, cmd_output = m, returncode = - 1\<rparr>, w'))"
  by (simp add: run_command_def)

theorem run_command_never_raises_witness:
  "run_command (demo_os ''/package.json'' ''npm test'' (Inl TimeoutExpired)) ''npm test'' [] =
     (\<lparr>success = False, cmd_output = ''Command timed out after 60 seconds'',
       returncode = - 1\<rparr>, [''npm test''])
   \<and> run_command (demo_os ''/package.json'' ''npm test'' (Inl (Exception ''Permission denied'')))
         ''npm test'' [] =
     (\<lparr>success = False, cmd_output = ''Permission denied'', returncode = - 1\<rparr>, [''npm test''])
   \<and> run_command (demo_os ''/package.json'' ''npm test'' (exits 2 ''FAIL'')) ''npm test'' [] =
     (\<lparr>success = False, cmd_output = ''FAIL'', returncode = 2\<rparr>, [''npm test''])"
proof -
  have t: "subprocess_run (demo_os ''/package.json'' ''npm test'' (Inl TimeoutExpired))
             ''npm test'' (Some 60) [] = (Inl TimeoutExpired, [''npm test''])"
    by (simp add: demo_os_def)
  have e: "subprocess_run (demo_os ''/package.json'' ''npm test''
             (Inl (Exception ''Permission denied''))) ''npm test'' (Some 60) [] =
           (Inl (Exception ''Permission denied''), [''npm test''])"
    by (simp add: demo_os_def)
  have r: "subprocess_run (demo_os ''/package.json'' ''npm test'' (exits 2 ''FAIL''))
             ''npm test'' (Some 60) [] =
           (Inr \<lparr>cp_returncode = 2, cp_stdout = ''FAIL'', cp_stderr = []\<rparr>, [''npm test''])"
    by (simp add: demo_os_def exits_def)
  show ?thesis
    using t e r
      run_command_never_raises [where sys = "demo_os ''/package.json'' ''npm test'' (Inl TimeoutExpired)"
        and cmd = "''npm test''" and w = "[]" and w' = "[''npm test'']"]
      run_command_never_raises [where sys = "demo_os ''/package.json'' ''npm test''
        (Inl (Exception ''Permission denied''))" and cmd = "''npm test''" and w = "[]"
        and w' = "[''npm test'']" and m = "''Permission denied''"]
      run_command_never_raises [where sys = "demo_os ''/package.json'' ''npm test'' (exits 2 ''FAIL'')"
        and cmd = "''npm test''" and w = "[]"
        and r = "\<lparr>cp_returncode = 2, cp_stdout = ''FAIL'', cp_stderr = []\<rparr>"
        and w' = "[''npm test'']"]
    by simp
qed

section \<open>The parsers\<close>

lemma append_matches_map: "append_matches mk acc ms = acc @ map mk ms"
  by (induction ms arbitrary: acc) simp_all
lemma length_take_le: "length (take n xs) \<le> n"
  by simp

lemma parse_test_failures_eq:
  "parse_test_failures py out cmd =
     take 10 (map (test_failure cmd)
       (map pair_list (findall2 py Jest out) @ map pair_list (findall2 py Pytest out) @
        map (\<lambda>s. [s]) (findall1 py AssertionErr out) @ map (\<lambda>s. [s]) (findall1 py ErrorMsg out)))"
  by (simp add: parse_test_failures_def append_matches_map del: take_append take_map)

lemma parse_lint_failures_eq:
  "parse_lint_failures py out cmd =
     take 10 (map (lint_error cmd) (findall4 py ESLint out @ findall4 py Ruff out))"
  by (simp add: parse_lint_failures_def append_matches_map del: take_append take_map)

lemma parse_type_failures_eq:
  "parse_type_failures py out cmd =
     take 10 (map (type_error cmd) (findall3 py TypeScript out @ findall3 py MyPy out))"
  by (simp add: parse_type_failures_def append_matches_map del: take_append take_map)

lemma parse_build_failures_le_1: "length (parse_build_failures out cmd) \<le> 1"
  by (simp add: parse_build_failures_def)

text \<open>
  Claim C5. Each parser of a failed stage goes through its patterns in the order of its
  list and appends a failure for every match of every pattern, so that its result is the
  first ten of all the matches in that order. The parser of a build stage has no list of
  patterns: it returns the one failure \<open>yaml_error\<close> when the command names docker and
  the output names yaml or yml, and nothing otherwise. No parser returns more than ten
  failures.
\<close>

theorem parsers_concatenate_and_truncate:
  "parse_test_failures py out cmd =
     take 10 (map (test_failure cmd)
       (map pair_list (findall2 py Jest out) @ map pair_list (findall2 py Pytest out) @
        map (\<lambda>s. [s]) (findall1 py AssertionErr out) @ map (\<lambda>s. [s]) (findall1 py ErrorMsg out)))
   \<and> parse_lint_failures py out cmd =
     take 10 (map (lint_error cmd) (findall4 py ESLint out @ findall4 py Ruff out))
   \<and> parse_type_failures py out cmd =
     take 10 (map (type_error cmd) (findall3 py TypeScript out @ findall3 py MyPy out))
   \<and> length (parse_test_failures py out cmd) \<le> 10
   \<and> length (parse_lint_failures py out cmd) \<le> 10
   \<and> length (parse_type_failures py out cmd) \<le> 10
   \<and> length (parse_build_failures out cmd) \<le> 10
   \<and> parse_build_failures out cmd =
     (if contains ''docker'' (lower cmd)
         \<and> (contains ''yaml'' (lower out) \<or> contains ''yml'' (lower out))
      then [yaml_error cmd] else [])"
proof -
  have t: "length (parse_test_failures py out cmd) \<le> 10"
    unfolding parse_test_failures_eq by (rule length_take_le)
  have l: "length (parse_lint_failures py out cmd) \<le> 10"
    unfolding parse_lint_failures_eq by (rule length_take_le)
  have y: "length (parse_type_failures py out cmd) \<le> 10"
    unfolding parse_type_failures_eq by (rule length_take_le)
  have b: "length (parse_build_failures out cmd) \<le> 10"
    using parse_build_failures_le_1 [of out cmd] by linarith
  have d: "parse_build_failures out cmd =
     (if contains ''docker'' (lower cmd)
         \<and> (contains ''yaml'' (lower out) \<or> contains ''yml'' (lower out))
      then [yaml_error cmd] else [])"
    by (simp add: parse_build_failures_def)
  from t l y b d show ?thesis
    using parse_test_failures_eq parse_lint_failures_eq parse_type_failures_eq by blast
qed

theorem parsers_concatenate_and_truncate_witness:
  "parse_lint_failures demo_py ''app.js:12:3: error: missing semicolon'' ''npm run lint'' =
     [lint_error ''npm run lint'' (''app.js'', ''12'', ''3'', ''missing semicolon''),
      lint_error ''npm run lint'' (''app.js'', ''12'', ''3'', ''error: missing semicolon'')]
   \<and> parse_build_failures ''services.web: invalid YAML mapping'' ''docker-compose build'' =
     [yaml_error ''docker-compose build'']
   \<and> parse_build_failures ''Module not found'' ''docker-compose build'' = []"
proof -
  have y: "contains ''docker'' (lower ''docker-compose build'')
           \<and> (contains ''yaml'' (lower ''services.web: invalid YAML mapping'')
                \<or> contains ''yml'' (lower ''services.web: invalid YAML mapping''))"
    by code_simp
  have n: "\<not> (contains ''yaml'' (lower ''Module not found'')
                \<or> contains ''yml'' (lower ''Module not found''))"
    by code_simp
  show ?thesis
    using y n
      parsers_concatenate_and_truncate [of demo_py
        "''app.js:12:3: error: missing semicolon''" "''npm run lint''"]
      parsers_concatenate_and_truncate [of demo_py
        "''services.web: invalid YAML mapping''" "''docker-compose build''"]
      parsers_concatenate_and_truncate [of demo_py
        "''Module not found''" "''docker-compose build''"]
    by (simp add: demo_py_def)
qed


section \<open>What counts as fixed\<close>

lemma attempt_fix_counts:
  assumes "attempt_fix sys sk fixers f fr w = (Inr fr', w')"
  shows "fixed_count fr' - length (fixed fr') = fixed_count fr - length (fixed fr)
         \<and> length (fixed fr') - fixed_count fr' = length (fixed fr) - fixed_count fr
         \<and> fixed_count fr' \<le> fixed_count fr + (if f_fixable f then 1 else 0)
         \<and> fixed_count fr \<le> fixed_count fr'"
  using assms
  by (auto simp: attempt_fix_def mark_fixed_def mark_failed_def Let_def
           split: if_splits option.splits prod.splits sum.splits bool.splits)

lemma attempt_each_counts:
  assumes "attempt_each sys sk fixers fs fr w = (Inr fr', w')"
  shows "fixed_count fr' - length (fixed fr') = fixed_count fr - length (fixed fr)
         \<and> length (fixed fr') - fixed_count fr' = length (fixed fr) - fixed_count fr
         \<and> fixed_count fr' \<le> fixed_count fr + length (filter f_fixable fs)"
  using assms
proof (induction fs arbitrary: fr w)
  case Nil
  then show ?case by simp
next
  case (Cons f fs)
  from Cons.prems obtain fr1 w1 where
    a: "attempt_fix sys sk fixers f fr w = (Inr fr1, w1)" and
    r: "attempt_each sys sk fixers fs fr1 w1 = (Inr fr', w')"
    by (auto split: prod.splits sum.splits)
  from attempt_fix_counts [OF a] Cons.IH [OF r] show ?case
    by (auto split: if_splits)
qed

lemma attempt_fixes_Inr:
  assumes "attempt_fixes sys py sk results ptype changed w = (Inr fr, w1)"
  shows "\<exists>fr0. attempt_each sys sk (common_fixes (get_config sys py ptype)) (failures results)
            \<lparr>attempted = 0, fixed = [], failed = [], fixed_count = 0, all_fixed = False\<rparr> w
            = (Inr fr0, w1)
          \<and> fr = fr0\<lparr>all_fixed := (fixed_count fr0 = length (failures results))\<rparr>"
  using assms
  by (auto simp: attempt_fixes_def Let_def split: prod.splits sum.splits)

lemma attempt_fixes_counts:
  assumes "attempt_fixes sys py sk results ptype changed w = (Inr fr, w1)"
  shows "all_fixed fr = (fixed_count fr = length (failures results))"
    and "fixed_count fr = length (fixed fr)"
    and "fixed_count fr \<le> length (filter f_fixable (failures results))"
proof -
  from attempt_fixes_Inr [OF assms] obtain fr0 where
    e: "attempt_each sys sk (common_fixes (get_config sys py ptype)) (failures results)
            \<lparr>attempted = 0, fixed = [], failed = [], fixed_count = 0, all_fixed = False\<rparr> w
            = (Inr fr0, w1)" and
    f: "fr = fr0\<lparr>all_fixed := (fixed_count fr0 = length (failures results))\<rparr>"
    by blast
  from attempt_each_counts [OF e] have
    c: "fixed_count fr0 = length (fixed fr0)"
       "fixed_count fr0 \<le> length (filter f_fixable (failures results))"
    by simp_all
  show "all_fixed fr = (fixed_count fr = length (failures results))" using f by simp
  show "fixed_count fr = length (fixed fr)" using f c by simp
  show "fixed_count fr \<le> length (filter f_fixable (failures results))" using f c by simp
qed

lemma attempt_fix_report:
  assumes "f_fixable f"
      and "attempt_fix sys sk fixers f fr w = (Inr fr', w')"
  shows "fr' = (if fst (fixer_report sys fixers f w)
                then mark_fixed f (fr\<lparr>attempted := attempted fr + 1\<rparr>)
                else mark_failed f (fr\<lparr>attempted := attempted fr + 1\<rparr>))
         \<and> w' = (if map_of fixers (f_type f) = None then snd (fixer_report sys fixers f w)
                 else snd (log_fix sk f (if fst (fixer_report sys fixers f w)
                                         then ''success'' else ''failed'')
                             (snd (fixer_report sys fixers f w))))"
  using assms
  by (auto simp: attempt_fix_def fixer_report_def Let_def
           split: option.splits prod.splits sum.splits bool.splits if_splits)

lemma attempt_each_reports:
  assumes "attempt_each sys sk fixers fs fr w = (Inr fr', w')"
  shows "fixed fr' = fixed fr @ map fst (filter snd (zip fs (fixer_reports sys sk fixers fs w)))
         \<and> failed fr' = failed fr @
               map fst (filter (\<lambda>(f, reported). f_fixable f \<and> \<not> reported)
                          (zip fs (fixer_reports sys sk fixers fs w)))
         \<and> fixed_count fr' =
               fixed_count fr + length (filter (\<lambda>b. b) (fixer_reports sys sk fixers fs w))
         \<and> length (fixer_reports sys sk fixers fs w) = length fs"
  using assms
proof (induction fs arbitrary: fr w)
  case Nil
  then show ?case by simp
next
  case (Cons f fs)
  from Cons.prems obtain fr1 w1 where
    a: "attempt_fix sys sk fixers f fr w = (Inr fr1, w1)" and
    r: "attempt_each sys sk fixers fs fr1 w1 = (Inr fr', w')"
    by (auto split: prod.splits sum.splits)
  show ?case
  proof (cases "f_fixable f")
    case False
    then have "fr1 = fr" "w1 = w"
      using a by (simp_all add: attempt_fix_def)
    then show ?thesis
      using Cons.IH [OF r] False by simp
  next
    case True
    note s = attempt_fix_report [OF True a]
    obtain b w2 where p: "fixer_report sys fixers f w = (b, w2)"
      by (cases "fixer_report sys fixers f w")
    have w: "w1 = (if map_of fixers (f_type f) = None then w2
                   else snd (log_fix sk f (if b then ''success'' else ''failed'') w2))"
      using s p by simp
    have f1: "fr1 = (if b then mark_fixed f (fr\<lparr>attempted := attempted fr + 1\<rparr>)
                     else mark_failed f (fr\<lparr>attempted := attempted fr + 1\<rparr>))"
      using s p by simp
    have e: "fixer_reports sys sk fixers (f # fs) w = b # fixer_reports sys sk fixers fs w1"
      using True p w by simp
    show ?thesis
      using Cons.IH [OF r] True
      by (cases b) (simp_all add: e f1 mark_fixed_def mark_failed_def del: fixer_reports.simps)
  qed
qed

lemma all_true_iff: "(length (filter (\<lambda>b. b) bs) = length bs) = list_all (\<lambda>b. b) bs"
proof (induction bs)
  case Nil
  then show ?case by simp
next
  case (Cons b bs)
  have le: "length (filter (\<lambda>b. b) bs) \<le> length bs"
    by (rule length_filter_le)
  show ?case
  proof (cases b)
    case True
    then show ?thesis using Cons by simp
  next
    case False
    then show ?thesis using le by (simp del: length_filter_le)
  qed
qed

lemma attempt_fixes_reports:
  assumes "attempt_fixes sys py sk results ptype changed w = (Inr fr, w1)"
  shows "fixed fr =
           map fst (filter snd (zip (failures results)
             (fixer_reports sys sk (common_fixes (get_config sys py ptype)) (failures results) w)))"
    and "failed fr =
           map fst (filter (\<lambda>(f, reported). f_fixable f \<and> \<not> reported)
             (zip (failures results)
               (fixer_reports sys sk (common_fixes (get_config sys py ptype)) (failures results) w)))"
    and "all_fixed fr =
           list_all (\<lambda>reported. reported)
             (fixer_reports sys sk (common_fixes (get_config sys py ptype)) (failures results) w)"
proof -
  from attempt_fixes_Inr [OF assms] obtain fr0 where
    e: "attempt_each sys sk (common_fixes (get_config sys py ptype)) (failures results)
            \<lparr>attempted = 0, fixed = [], failed = [], fixed_count = 0, all_fixed = False\<rparr> w
            = (Inr fr0, w1)" and
    f: "fr = fr0\<lparr>all_fixed := (fixed_count fr0 = length (failures results))\<rparr>"
    by blast
  note r = attempt_each_reports [OF e]
  show "fixed fr =
           map fst (filter snd (zip (failures results)
             (fixer_reports sys sk (common_fixes (get_config sys py ptype)) (failures results) w)))"
    using r f by simp
  show "failed fr =
           map fst (filter (\<lambda>(f, reported). f_fixable f \<and> \<not> reported)
             (zip (failures results)
               (fixer_reports sys sk (common_fixes (get_config sys py ptype)) (failures results) w)))"
    using r f by simp
  have "all_fixed fr =
          (length (filter (\<lambda>b. b)
             (fixer_reports sys sk (common_fixes (get_config sys py ptype)) (failures results) w))
           = length (fixer_reports sys sk (common_fixes (get_config sys py ptype))
                       (failures results) w))"
    using r f by simp
  then show "all_fixed fr =
           list_all (\<lambda>reported. reported)
             (fixer_reports sys sk (common_fixes (get_config sys py ptype)) (failures results) w)"
    by (simp only: all_true_iff)
qed

text \<open>
  Claim C2, as the code has it. \<open>all_fixed\<close> is computed from what the fixers report
  and from nothing else: \<open>fixed\<close> holds the failures whose fixer returned true, in
  their order, and \<open>all_fixed\<close> holds exactly when every failure has a fixer that
  returned true, which is when as many failures were reported fixed as there are
  failures. Only when it holds does a second verification pass run, and that
  pass decides no more than which line is printed and which notification is sent:
  success if it finds no failure, and otherwise a partial fix that still counts every
  failure reported fixed as fixed, next to the number of failures that remain.
\<close>

theorem all_fixed_is_the_fixers_claim:
  assumes "attempt_fixes sys py sk results ptype changed w = (Inr fr, w1)"
      and "run_all_tests sys py ptype changed w1 = (final, w2)"
  shows "all_fixed fr = (length (fixed fr) = length (failures results))
         \<and> fst (fix_and_verify sys py sk results ptype changed w) =
             (None, FoundIssues (length (failures results)) #
                (if all_fixed fr
                 then [AllFixedVerifying,
                       if has_failures final
                       then FixedRemain (length (fixed fr)) (length (failures final))
                       else AllPassingReady]
                 else [CouldNotFix]))
         \<and> fixed fr =
             map fst (filter snd (zip (failures results)
               (fixer_reports sys sk (common_fixes (get_config sys py ptype))
                  (failures results) w)))
         \<and> failed fr =
             map fst (filter (\<lambda>(f, reported). f_fixable f \<and> \<not> reported)
               (zip (failures results)
                 (fixer_reports sys sk (common_fixes (get_config sys py ptype))
                    (failures results) w)))
         \<and> all_fixed fr =
             list_all (\<lambda>reported. reported)
               (fixer_reports sys sk (common_fixes (get_config sys py ptype))
                  (failures results) w)"
proof -
  have a: "all_fixed fr = (length (fixed fr) = length (failures results))"
    using attempt_fixes_counts(1,2) [OF assms(1)] by simp
  have c: "fixed_count fr = length (fixed fr)"
    using attempt_fixes_counts(2) [OF assms(1)] by simp
  have "fst (fix_and_verify sys py sk results ptype changed w) =
             (None, FoundIssues (length (failures results)) #
                (if all_fixed fr
                 then [AllFixedVerifying,
                       if has_failures final
                       then FixedRemain (fixed_count fr) (length (failures final))
                       else AllPassingReady]
                 else [CouldNotFix]))"
    using assms by (simp add: fix_and_verify_def)
  with a c have m: "all_fixed fr = (length (fixed fr) = length (failures results))
         \<and> fst (fix_and_verify sys py sk results ptype changed w) =
             (None, FoundIssues (length (failures results)) #
                (if all_fixed fr
                 then [AllFixedVerifying,
                       if has_failures final
                       then FixedRemain (length (fixed fr)) (length (failures final))
                       else AllPassingReady]
                 else [CouldNotFix]))"
    by simp
  show ?thesis
    using m attempt_fixes_reports [OF assms(1)] by blast
qed

theorem all_fixed_is_the_fixers_claim_witness:
  "all_fixed \<lparr>attempted = 2, fixed = [lint_failure_1, lint_failure_2], failed = [],
              fixed_count = 2, all_fixed = True\<rparr>
   \<and> fst (fix_and_verify lint_fails demo_py demo_sinks
        (fst (run_all_tests lint_fails demo_py ''javascript'' [] [])) ''javascript'' [] first_pass) =
       (None, [FoundIssues 2, AllFixedVerifying, FixedRemain 2 2])
   \<and> fixer_reports lint_fails demo_sinks
        (common_fixes (get_config lint_fails demo_py ''javascript''))
        [lint_failure_1, lint_failure_2] first_pass = [True, True]"
proof -
  have a: "attempt_fixes lint_fails demo_py demo_sinks
        (fst (run_all_tests lint_fails demo_py ''javascript'' [] [])) ''javascript'' [] first_pass =
       (Inr \<lparr>attempted = 2, fixed = [lint_failure_1, lint_failure_2], failed = [],
             fixed_count = 2, all_fixed = True\<rparr>,
        first_pass @ [''npm run lint -- --fix'', ''npm run lint -- --fix''])"
    by code_simp
  have b: "run_all_tests lint_fails demo_py ''javascript'' []
             (first_pass @ [''npm run lint -- --fix'', ''npm run lint -- --fix'']) =
           (fst (run_all_tests lint_fails demo_py ''javascript'' []
                  (first_pass @ [''npm run lint -- --fix'', ''npm run lint -- --fix''])),
            snd (run_all_tests lint_fails demo_py ''javascript'' []
                  (first_pass @ [''npm run lint -- --fix'', ''npm run lint -- --fix''])))"
    by simp
  have r: "failures (fst (run_all_tests lint_fails demo_py ''javascript'' [] [])) =
             [lint_failure_1, lint_failure_2]"
    by code_simp
  have f: "failures (fst (run_all_tests lint_fails demo_py ''javascript'' []
             (first_pass @ [''npm run lint -- --fix'', ''npm run lint -- --fix'']))) =
           [lint_failure_1, lint_failure_2]"
    by code_simp
  have h: "has_failures (fst (run_all_tests lint_fails demo_py ''javascript'' []
             (first_pass @ [''npm run lint -- --fix'', ''npm run lint -- --fix''])))"
    by code_simp
  have p: "fixer_reports lint_fails demo_sinks
        (common_fixes (get_config lint_fails demo_py ''javascript''))
        [lint_failure_1, lint_failure_2] first_pass = [True, True]"
    by code_simp
  show ?thesis
    using all_fixed_is_the_fixers_claim [OF a b] r f h p by simp
qed

text \<open>
  Claim C2 as stated makes a failure that comes back unresolved and has the result
  depend on the second pass alone. In the project whose lint run fails for good, the
  fixer of both failures reports success, since the fix command exits with 0; both
  failures come back in the next pass, and still both are in \<open>fixed\<close>, \<open>all_fixed\<close>
  is true, and the hook prints that it fixed two issues while two remain.
\<close>

theorem claimed_fix_counterexample:
  "failures (fst (run_all_tests lint_fails demo_py ''javascript'' [] [])) =
     [lint_failure_1, lint_failure_2]
   \<and> attempt_fixes lint_fails demo_py demo_sinks
        (fst (run_all_tests lint_fails demo_py ''javascript'' [] [])) ''javascript'' [] first_pass =
       (Inr \<lparr>attempted = 2, fixed = [lint_failure_1, lint_failure_2], failed = [],
             fixed_count = 2, all_fixed = True\<rparr>,
        first_pass @ [''npm run lint -- --fix'', ''npm run lint -- --fix''])
   \<and> failures (fst (run_all_tests lint_fails demo_py ''javascript'' []
        (first_pass @ [''npm run lint -- --fix'', ''npm run lint -- --fix'']))) =
     [lint_failure_1, lint_failure_2]
   \<and> fst (run_comprehensive_test lint_fails demo_py demo_sinks (Inr demo_hook) []) =
       (0, [Starting ''javascript'', FoundIssues 2, AllFixedVerifying, FixedRemain 2 2])"
  by code_simp

section \<open>Failures that are not fixable\<close>

lemma parse_build_failures_unrecognised:
  "\<not> (contains ''docker'' (lower cmd)
       \<and> (contains ''yaml'' (lower out) \<or> contains ''yml'' (lower out)))
   \<Longrightarrow> parse_build_failures out cmd = []"
  by (auto simp: parse_build_failures_def)

lemma attempt_fix_unfixable:
  "\<not> f_fixable f \<Longrightarrow> attempt_fix sys sk fixers f fr w = (Inr fr, w)"
  by (simp add: attempt_fix_def)

lemma filter_lt_length:
  "\<exists>x\<in>set xs. \<not> P x \<Longrightarrow> length (filter P xs) < length xs"
  by (auto intro: length_filter_less)

text \<open>
  Claim C6, as the code has it. The parser of a build stage returns no failure at all
  unless the command names docker and the output names yaml or yml. A failure that is
  not fixable is skipped by \<open>attempt_fixes\<close>: no fixer runs, nothing is logged and the
  attempt is not counted. A run of \<open>attempt_fixes\<close> over a list that has such a
  failure in it ends with \<open>all_fixed\<close> false.
\<close>

theorem unfixable_is_never_dispatched:
  "(\<not> (contains ''docker'' (lower cmd)
        \<and> (contains ''yaml'' (lower out) \<or> contains ''yml'' (lower out)))
      \<longrightarrow> parse_build_failures out cmd = [])
   \<and> (\<not> f_fixable f \<longrightarrow> attempt_fix sys sk fixers f fr w = (Inr fr, w))
   \<and> (attempt_fixes sys py sk results ptype changed w = (Inr fr', w')
        \<and> (\<exists>f\<in>set (failures results). \<not> f_fixable f)
      \<longrightarrow> \<not> all_fixed fr')"
proof -
  have "\<not> all_fixed fr'"
    if a: "attempt_fixes sys py sk results ptype changed w = (Inr fr', w')"
      and u: "\<exists>f\<in>set (failures results). \<not> f_fixable f"
  proof -
    have "fixed_count fr' < length (failures results)"
      using attempt_fixes_counts(3) [OF a] filter_lt_length [OF u] by linarith
    then show ?thesis
      using attempt_fixes_counts(1) [OF a] by simp
  qed
  then show ?thesis
    using parse_build_failures_unrecognised [of cmd out] attempt_fix_unfixable [of f sys sk fixers fr w]
    by blast
qed

theorem unfixable_is_never_dispatched_witness:
  "parse_build_failures ''Module not found'' ''npm run build'' = []
   \<and> attempt_fix build_fails demo_sinks
        (common_fixes (get_config build_fails demo_py ''javascript'')) manual_failure
        \<lparr>attempted = 0, fixed = [], failed = [], fixed_count = 0, all_fixed = False\<rparr> [] =
       (Inr \<lparr>attempted = 0, fixed = [], failed = [], fixed_count = 0, all_fixed = False\<rparr>, [])
   \<and> \<not> all_fixed \<lparr>attempted = 0, fixed = [], failed = [], fixed_count = 0, all_fixed = False\<rparr>"
proof -
  have c: "\<not> (contains ''docker'' (lower ''npm run build'')
        \<and> (contains ''yaml'' (lower ''Module not found'')
            \<or> contains ''yml'' (lower ''Module not found'')))"
    by code_simp
  have u: "\<not> f_fixable manual_failure"
    by (simp add: manual_failure_def)
  have a: "attempt_fixes build_fails demo_py demo_sinks manual_results ''javascript'' [] [] =
             (Inr \<lparr>attempted = 0, fixed = [], failed = [], fixed_count = 0,
                   all_fixed = False\<rparr>, [])"
    by code_simp
  have e: "\<exists>f\<in>set (failures manual_results). \<not> f_fixable f"
    by (simp add: manual_results_def manual_failure_def)
  show ?thesis
    using c u a e
      unfixable_is_never_dispatched [where cmd = "''npm run build''"
        and out = "''Module not found''" and f = manual_failure and sys = build_fails
        and sk = demo_sinks
        and fixers = "common_fixes (get_config build_fails demo_py ''javascript'')"
        and fr = "\<lparr>attempted = 0, fixed = [], failed = [], fixed_count = 0, all_fixed = False\<rparr>"
        and w = "[]" and py = demo_py and results = manual_results
        and ptype = "''javascript''" and changed = "[]"
        and fr' = "\<lparr>attempted = 0, fixed = [], failed = [], fixed_count = 0, all_fixed = False\<rparr>"
        and w' = "[]"]
    by blast
qed

text \<open>
  Claim C6 as stated has the classification of a failed build with an unknown output
  return a failure that is not fixable. In the project whose build fails with the output
  \<open>Module not found\<close> the parser returns nothing, the pass has no failure, and the hook
  reports that all tests pass.
\<close>

theorem unrecognised_build_counterexample:
  "parse_build_failures ''Module not found'' ''npm run build'' = []
   \<and> run_comprehensive_test build_fails demo_py demo_sinks (Inr demo_hook) [] =
       ((0, [Starting ''javascript'', NoFixesNeeded]),
        [''npm test'', ''npm run test:unit'', ''npm run test:integration'',
         ''npm run lint'', ''npm run eslint'', ''npm run type-check'',
         ''npm run tsc'', ''npm run build''])"
  by code_simp

section \<open>A fixer that raises has failed\<close>

text \<open>
  Claim C9. Where the \<open>try\<close> block of a fixer raises, the fixer returns \<open>False\<close>, in the
  world the block left behind. That is so for the five fixers whose block can raise,
  as it reads a file or a number; the block of the other three only runs a command,
  which never raises, and the remaining two fixers return \<open>False\<close> at once. In
  \<open>attempt_fixes\<close> a fixer that returned \<open>False\<close> puts its failure into \<open>failed\<close>, and
  the loop goes on.
\<close>

theorem fixer_errors_become_false:
  "(fix_missing_import_js_try sys f w = (Inl e, w') \<longrightarrow>
      fix_missing_import_js sys f w = (False, w'))
   \<and> (fix_syntax_error_js_try sys py f w = (Inl e, w') \<longrightarrow>
      fix_syntax_error_js sys py f w = (False, w'))
   \<and> (fix_type_error_ts_try sys f w = (Inl e, w') \<longrightarrow>
      fix_type_error_ts sys f w = (False, w'))
   \<and> (fix_import_error_py_try sys py f w = (Inl e, w') \<longrightarrow>
      fix_import_error_py sys py f w = (False, w'))
   \<and> (fix_syntax_error_py_try sys py f w = (Inl e, w') \<longrightarrow>
      fix_syntax_error_py sys py f w = (False, w'))
   \<and> fst (fix_lint_error_js_try sys f w) \<noteq> Inl e
   \<and> fst (fix_indentation_error_py_try sys f w) \<noteq> Inl e
   \<and> fst (fix_yaml_error_try sys f w) \<noteq> Inl e
   \<and> (f_fixable f \<and> map_of fixers (f_type f) = Some fixer \<and> fixer f w = (False, w')
        \<and> log_fix sk f ''failed'' w' = (Inr u, w'') \<longrightarrow>
      attempt_fix sys sk fixers f fr w =
        (Inr (mark_failed f (fr\<lparr>attempted := attempted fr + 1\<rparr>)), w''))"
proof -
  have l: "fst (fix_lint_error_js_try sys f w) \<noteq> Inl e"
    by (simp add: fix_lint_error_js_try_def split: prod.splits)
  have i: "fst (fix_indentation_error_py_try sys f w) \<noteq> Inl e"
    by (simp add: fix_indentation_error_py_try_def split: prod.splits)
  have y: "fst (fix_yaml_error_try sys f w) \<noteq> Inl e"
    by (simp add: fix_yaml_error_try_def split: prod.splits)
  have a: "attempt_fix sys sk fixers f fr w =
        (Inr (mark_failed f (fr\<lparr>attempted := attempted fr + 1\<rparr>)), w'')"
    if "f_fixable f" "map_of fixers (f_type f) = Some fixer" "fixer f w = (False, w')"
       "log_fix sk f ''failed'' w' = (Inr u, w'')"
    using that by (simp add: attempt_fix_def Let_def)
  show ?thesis
    using l i y a
    by (simp add: fix_missing_import_js_def fix_syntax_error_js_def fix_type_error_ts_def
          fix_import_error_py_def fix_syntax_error_py_def except_false_def)
qed

theorem fixer_errors_become_false_witness:
  "fix_missing_import_js build_fails any_type_failure [] = (False, [])
   \<and> fix_syntax_error_js build_fails demo_py any_type_failure [] = (False, [])
   \<and> fix_type_error_ts build_fails any_type_failure [] = (False, [])
   \<and> fix_import_error_py build_fails demo_py any_type_failure [] = (False, [])
   \<and> fix_syntax_error_py build_fails demo_py any_type_failure [] = (False, [])
   \<and> attempt_fix build_fails demo_sinks
         (common_fixes (get_config build_fails demo_py ''javascript'')) any_type_failure
         \<lparr>attempted = 0, fixed = [], failed = [], fixed_count = 0, all_fixed = False\<rparr> [] =
       (Inr \<lparr>attempted = 1, fixed = [], failed = [any_type_failure], fixed_count = 0,
             all_fixed = False\<rparr>, [])"
proof -
  have r: "fix_missing_import_js_try build_fails any_type_failure [] =
             (Inl (Exception ''No such file or directory''), [])"
          "fix_type_error_ts_try build_fails any_type_failure [] =
             (Inl (Exception ''No such file or directory''), [])"
          "fix_import_error_py_try build_fails demo_py any_type_failure [] =
             (Inl (Exception ''No such file or directory''), [])"
          "fix_syntax_error_js_try build_fails demo_py any_type_failure [] =
             (Inl (Exception ''No such file or directory''), [])"
          "fix_syntax_error_py_try build_fails demo_py any_type_failure [] =
             (Inl (Exception ''No such file or directory''), [])"
    by code_simp+
  have m: "f_fixable any_type_failure"
          "map_of (common_fixes (get_config build_fails demo_py ''javascript''))
             (f_type any_type_failure) = Some (fix_type_error_ts build_fails)"
    by (simp_all add: any_type_failure_def type_error_def get_config_def test_configs_def)
  have g: "log_fix demo_sinks any_type_failure ''failed'' [] = (Inr (), [])"
    by (simp add: demo_sinks_def)
  note t1 = fixer_errors_become_false [where sys = build_fails and py = demo_py
      and f = any_type_failure and w = "[]" and w' = "[]"
      and e = "Exception ''No such file or directory''" and sk = demo_sinks
      and fixers = "common_fixes (get_config build_fails demo_py ''javascript'')"
      and fixer = "fix_type_error_ts build_fails" and u = "()" and w'' = "[]"
      and fr = "\<lparr>attempted = 0, fixed = [], failed = [], fixed_count = 0, all_fixed = False\<rparr>"]
  have c1: "fix_missing_import_js build_fails any_type_failure [] = (False, [])"
    and c3: "fix_type_error_ts build_fails any_type_failure [] = (False, [])"
    and c4: "fix_import_error_py build_fails demo_py any_type_failure [] = (False, [])"
    and c2: "fix_syntax_error_js build_fails demo_py any_type_failure [] = (False, [])"
    and c5: "fix_syntax_error_py build_fails demo_py any_type_failure [] = (False, [])"
    using t1 r by blast+
  have "attempt_fix build_fails demo_sinks
         (common_fixes (get_config build_fails demo_py ''javascript'')) any_type_failure
         \<lparr>attempted = 0, fixed = [], failed = [], fixed_count = 0, all_fixed = False\<rparr> [] =
       (Inr (mark_failed any_type_failure
          (\<lparr>attempted = 0, fixed = [], failed = [], fixed_count = 0, all_fixed = False\<rparr>
             \<lparr>attempted := attempted \<lparr>attempted = 0, fixed = [], failed = [], fixed_count = 0,
                all_fixed = False\<rparr> + 1\<rparr>)), [])"
    using t1 c3 m g by blast
  then show ?thesis
    using c1 c2 c3 c4 c5 by (simp add: mark_failed_def)
qed


section \<open>The guardian blocks on issues and on nothing else\<close>

text \<open>
  Claim C7. When the tool call is a completion attempt and \<open>run_checks\<close> returns its
  list of issues, the guardian prints the block action exactly when the list is not
  empty, whether or not the log can be written afterwards; with an empty list it
  prints nothing, which lets the completion through.
\<close>

theorem guardian_blocks_iff_issues:
  assumes "should_check ti"
      and "run_checks sys py w = (Inr issues, w1)"
  shows "allowed (fst (check_completion sys py append_log (Inr ti) w)) = (issues = [])
         \<and> stdout (fst (check_completion sys py append_log (Inr ti) w)) =
             (if issues = [] then None else Some issues)
         \<and> exit_code (fst (check_completion sys py append_log (Inr ti) w)) = 0"
  using assms
  by (simp add: check_completion_def check_and_report_def allowed_def
           split: prod.splits sum.splits)

theorem guardian_blocks_iff_issues_witness:
  "should_check demo_tool_input
   \<and> \<not> allowed (fst (check_completion compose_broken demo_py demo_log (Inr demo_tool_input) []))
   \<and> stdout (fst (check_completion compose_broken demo_py demo_log (Inr demo_tool_input) [])) =
       Some [compose_issue]
   \<and> allowed (fst (check_completion build_fails demo_py demo_log (Inr demo_tool_input) []))"
proof -
  have s: "should_check demo_tool_input"
    by code_simp
  have b: "run_checks compose_broken demo_py [] =
             (Inr [compose_issue], snd (run_checks compose_broken demo_py []))"
    by code_simp
  have a: "run_checks build_fails demo_py [] = (Inr [], snd (run_checks build_fails demo_py []))"
    by code_simp
  show ?thesis
    using s guardian_blocks_iff_issues [OF s b, of demo_log] guardian_blocks_iff_issues [OF s a, of demo_log]
    by simp
qed

text \<open>
  Claim C8. When \<open>run_checks\<close> raises, the guardian prints no block action, reports the
  error on standard error and returns 0: the completion is let through.
\<close>

theorem guardian_fails_open:
  assumes "run_checks sys py w = (Inl e, w1)"
  shows "allowed (fst (check_completion sys py append_log stdin w))
         \<and> exit_code (fst (check_completion sys py append_log stdin w)) = 0
         \<and> (stdin = Inr ti \<and> should_check ti \<longrightarrow>
              stderr (fst (check_completion sys py append_log stdin w)) =
                [Checking, GuardianError e])"
  using assms
  by (simp add: check_completion_def check_and_report_def allowed_def
           split: prod.splits sum.splits)

theorem guardian_fails_open_witness:
  "fst (run_checks type_check_hangs demo_py []) = Inl TimeoutExpired
   \<and> allowed (fst (check_completion type_check_hangs demo_py demo_log (Inr demo_tool_input) []))
   \<and> stderr (fst (check_completion type_check_hangs demo_py demo_log (Inr demo_tool_input) [])) =
       [Checking, GuardianError TimeoutExpired]"
proof -
  have s: "should_check demo_tool_input"
    by code_simp
  have f: "fst (run_checks type_check_hangs demo_py []) = Inl TimeoutExpired"
    by code_simp
  have r: "run_checks type_check_hangs demo_py [] =
             (Inl TimeoutExpired, snd (run_checks type_check_hangs demo_py []))"
    using f by (simp add: prod_eq_iff)
  show ?thesis
    using s f guardian_fails_open [OF r, of demo_log "Inr demo_tool_input" demo_tool_input]
    by simp
qed

section \<open>Uncommitted changes\<close>

lemma split_on_length: "length (split_on d s) = Suc (length (filter (\<lambda>c. c = d) s))"
  by (induction s) (auto split: list.splits)

lemma porcelain_snoc: "porcelain (es @ [e]) = porcelain es @ e @ [CHR 0x0A]"
  by (simp add: porcelain_def)

lemma porcelain_Cons: "porcelain (e # es) = e @ [CHR 0x0A] @ porcelain es"
  by (simp add: porcelain_def)

lemma porcelain_newlines:
  "\<forall>e\<in>set es. CHR 0x0A \<notin> set e \<Longrightarrow>
   length (filter (\<lambda>c. c = CHR 0x0A) (porcelain es)) = length es"
proof (induction es)
  case Nil
  then show ?case by (simp add: porcelain_def)
next
  case (Cons e es)
  have "filter (\<lambda>c. c = CHR 0x0A) e = []"
    using Cons.prems by (auto simp: filter_empty_conv)
  then show ?case
    using Cons by (simp add: porcelain_Cons)
qed

lemma no_newline_filter: "CHR 0x0A \<notin> set e \<Longrightarrow> filter (\<lambda>c. c = CHR 0x0A) e = []"
  by (auto simp: filter_empty_conv)

lemma is_space_newline: "is_space (CHR 0x0A)"
  by (simp add: is_space_def)

lemma lstrip_append:
  "\<not> list_all is_space e \<Longrightarrow> lstrip (e @ t) = lstrip e @ t"
  by (auto simp: lstrip_def list_all_iff dropWhile_append1)

lemma lstrip_subset: "set (lstrip e) \<subseteq> set e"
  by (auto simp: lstrip_def dest: set_dropWhileD)

lemma rstrip_subset: "set (rstrip e) \<subseteq> set e"
  by (auto simp: rstrip_def dest: set_dropWhileD)

lemma lstrip_keeps_nonspace: "\<not> list_all is_space e \<Longrightarrow> \<not> list_all is_space (lstrip e)"
proof -
  assume a: "\<not> list_all is_space e"
  then have n: "dropWhile is_space e \<noteq> []"
    by (auto simp: list_all_iff dropWhile_eq_Nil_conv)
  then have "\<not> is_space (hd (dropWhile is_space e))"
    by (rule hd_dropWhile)
  moreover have "hd (dropWhile is_space e) \<in> set (dropWhile is_space e)"
    using n by simp
  ultimately show ?thesis
    unfolding lstrip_def list_all_iff by blast
qed

lemma rstrip_append_newline:
  "\<not> list_all is_space e \<Longrightarrow> rstrip (t @ e @ [CHR 0x0A]) = t @ rstrip e"
proof -
  assume "\<not> list_all is_space e"
  then obtain c where "c \<in> set (rev e)" "\<not> is_space c"
    by (auto simp: list_all_iff)
  then have "dropWhile is_space (rev e @ rev t) = dropWhile is_space (rev e) @ rev t"
    by (rule dropWhile_append1)
  then show ?thesis
    by (simp add: rstrip_def is_space_newline)
qed

lemma strip_porcelain_newlines:
  assumes "entries \<noteq> []"
      and "\<forall>e\<in>set entries. status_entry e"
  shows "length (filter (\<lambda>c. c = CHR 0x0A) (strip (porcelain entries))) = length entries - 1"
proof -
  obtain es e where sn: "entries = es @ [e]"
    using assms(1) by (meson rev_exhaust)
  have e: "CHR 0x0A \<notin> set e" "\<not> list_all is_space e"
    using assms(2) sn by (auto simp: status_entry_def)
  show ?thesis
  proof (cases es)
    case Nil
    have "strip (porcelain entries) = rstrip ([] @ lstrip e @ [CHR 0x0A])"
      using sn Nil e by (simp add: strip_def porcelain_def lstrip_append)
    also have "\<dots> = rstrip (lstrip e)"
      using rstrip_append_newline [OF lstrip_keeps_nonspace [OF e(2)], of "[]"] by simp
    finally have s: "strip (porcelain entries) = rstrip (lstrip e)" .
    have "CHR 0x0A \<notin> set (rstrip (lstrip e))"
      using e(1) rstrip_subset lstrip_subset by fastforce
    then show ?thesis
      using s sn Nil by (simp add: no_newline_filter)
  next
    case (Cons e1 es')
    have e1: "CHR 0x0A \<notin> set e1" "\<not> list_all is_space e1"
      using assms(2) sn Cons by (auto simp: status_entry_def)
    have mid: "\<forall>x\<in>set es'. CHR 0x0A \<notin> set x"
      using assms(2) sn Cons by (auto simp: status_entry_def)
    have "porcelain entries = e1 @ ([CHR 0x0A] @ porcelain es' @ e @ [CHR 0x0A])"
      using sn Cons by (simp add: porcelain_def)
    then have "lstrip (porcelain entries) = (lstrip e1 @ [CHR 0x0A] @ porcelain es') @ e @ [CHR 0x0A]"
      using lstrip_append [OF e1(2)] by simp
    then have s: "strip (porcelain entries) = (lstrip e1 @ [CHR 0x0A] @ porcelain es') @ rstrip e"
      using rstrip_append_newline [OF e(2)] by (simp only: strip_def)
    have a: "CHR 0x0A \<notin> set (lstrip e1)"
      using e1(1) lstrip_subset by fastforce
    have b: "CHR 0x0A \<notin> set (rstrip e)"
      using e(1) rstrip_subset by fastforce
    have "length (filter (\<lambda>c. c = CHR 0x0A) (strip (porcelain entries))) = Suc (length es')"
      by (simp add: s no_newline_filter [OF a] no_newline_filter [OF b] porcelain_newlines [OF mid])
    then show ?thesis
      using sn Cons by simp
  qed
qed

lemma porcelain_not_empty: "entries \<noteq> [] \<Longrightarrow> porcelain entries \<noteq> []"
  by (cases entries) (simp_all add: porcelain_def)

lemma modified_files_count:
  assumes "entries \<noteq> []"
      and "\<forall>e\<in>set entries. status_entry e"
  shows "length (split_on (CHR 0x0A) (strip (porcelain entries))) = length entries"
  using strip_porcelain_newlines [OF assms] assms(1)
  by (cases entries) (simp_all add: split_on_length)

lemma check_git_status_porcelain:
  assumes "subprocess_run sys ''git status --porcelain'' None w = (Inr result, w1)"
      and "cp_stdout result = porcelain entries"
      and "\<forall>e\<in>set entries. status_entry e"
  shows "check_git_status sys w =
           (Inr (if 10 < length entries then [git_warning (length entries)] else []), w1)"
proof (cases "entries = []")
  case True
  then show ?thesis
    using assms by (simp add: check_git_status_def porcelain_def)
next
  case False
  then show ?thesis
    using assms porcelain_not_empty [OF False] modified_files_count [OF False assms(3)]
    by (simp add: check_git_status_def Let_def)
qed

text \<open>
  Claim C10, as the code has it. The git check is the last of the five checks of
  \<open>run_checks\<close>, and what it counts is what git lists when it runs, after the other
  checks. When those return and git lists its entries, one on a line, the check adds one
  warning to the issues if there are more than ten entries and nothing otherwise; and a
  completion attempt is let through exactly when the other checks found no error and git
  lists at most ten entries then.
\<close>

theorem git_status_blocks_above_ten:
  assumes "should_check ti"
      and "check_javascript sys py w = (Inr js_errors, w1)"
      and "check_python sys py w1 = (Inr py_errors, w2)"
      and "check_docker sys w2 = (Inr docker_errors, w3)"
      and "check_linting sys py w3 = (Inr lint_errors, w4)"
      and "subprocess_run sys ''git status --porcelain'' None w4 = (Inr result, w5)"
      and "cp_stdout result = porcelain entries"
      and "\<forall>e\<in>set entries. status_entry e"
  shows "check_git_status sys w4 =
           (Inr (if 10 < length entries then [git_warning (length entries)] else []), w5)
         \<and> run_checks sys py w =
           (Inr (js_errors @ py_errors @ docker_errors @ lint_errors @
                 (if 10 < length entries then [git_warning (length entries)] else [])), w5)
         \<and> allowed (fst (check_completion sys py append_log (Inr ti) w)) =
           (js_errors @ py_errors @ docker_errors @ lint_errors = [] \<and> length entries \<le> 10)
         \<and> (js_errors @ py_errors @ docker_errors @ lint_errors = [] \<and> 10 < length entries
              \<longrightarrow> stdout (fst (check_completion sys py append_log (Inr ti) w)) =
                    Some [git_warning (length entries)])"
proof -
  have g: "check_git_status sys w4 =
           (Inr (if 10 < length entries then [git_warning (length entries)] else []), w5)"
    by (rule check_git_status_porcelain [OF assms(6-8)])
  have r: "run_checks sys py w =
           (Inr (js_errors @ py_errors @ docker_errors @ lint_errors @
                 (if 10 < length entries then [git_warning (length entries)] else [])), w5)"
    using assms(2-5) g by (simp add: run_checks_def)
  have a: "allowed (fst (check_completion sys py append_log (Inr ti) w)) =
           (js_errors @ py_errors @ docker_errors @ lint_errors = [] \<and> length entries \<le> 10)"
    using assms(1) r
    by (auto simp: check_completion_def check_and_report_def allowed_def
             split: prod.splits sum.splits)
  have s: "stdout (fst (check_completion sys py append_log (Inr ti) w)) =
             Some [git_warning (length entries)]"
    if "js_errors @ py_errors @ docker_errors @ lint_errors = []" "10 < length entries"
    using assms(1) r that
    by (auto simp: check_completion_def check_and_report_def split: prod.splits sum.splits)
  from g r a s show ?thesis by blast
qed

theorem git_status_blocks_above_ten_witness:
  "fst (run_checks many_changes demo_py []) = Inr [git_warning 11]
   \<and> fst (run_checks few_changes demo_py []) = Inr []
   \<and> \<not> allowed (fst (check_completion many_changes demo_py demo_log (Inr demo_tool_input) []))
   \<and> allowed (fst (check_completion few_changes demo_py demo_log (Inr demo_tool_input) []))"
proof -
  have s: "should_check demo_tool_input"
    by code_simp
  have j: "check_javascript many_changes demo_py [] = (Inr [], [])"
          "check_javascript few_changes demo_py [] = (Inr [], [])"
    by code_simp+
  have p: "check_python many_changes demo_py [] =
             (Inr [], snd (check_python many_changes demo_py []))"
          "check_python few_changes demo_py [] =
             (Inr [], snd (check_python few_changes demo_py []))"
    by code_simp+
  have d: "check_docker many_changes (snd (check_python many_changes demo_py [])) =
             (Inr [], snd (check_python many_changes demo_py []))"
          "check_docker few_changes (snd (check_python few_changes demo_py [])) =
             (Inr [], snd (check_python few_changes demo_py []))"
    by code_simp+
  have l: "check_linting many_changes demo_py (snd (check_python many_changes demo_py [])) =
             (Inr [], snd (check_python many_changes demo_py []))"
          "check_linting few_changes demo_py (snd (check_python few_changes demo_py [])) =
             (Inr [], snd (check_python few_changes demo_py []))"
    by code_simp+
  have g: "subprocess_run many_changes ''git status --porcelain'' None
             (snd (check_python many_changes demo_py [])) =
           (Inr \<lparr>cp_returncode = 0, cp_stdout = porcelain eleven_entries, cp_stderr = []\<rparr>,
            snd (check_python many_changes demo_py []) @ [''git status --porcelain''])"
          "subprocess_run few_changes ''git status --porcelain'' None
             (snd (check_python few_changes demo_py [])) =
           (Inr \<lparr>cp_returncode = 0, cp_stdout = porcelain (take 10 eleven_entries),
                 cp_stderr = []\<rparr>,
            snd (check_python few_changes demo_py []) @ [''git status --porcelain''])"
    by (simp_all add: many_changes_def few_changes_def demo_os_def exits_def)
  have o: "cp_stdout \<lparr>cp_returncode = 0, cp_stdout = porcelain eleven_entries, cp_stderr = []\<rparr>
             = porcelain eleven_entries"
          "cp_stdout \<lparr>cp_returncode = 0, cp_stdout = porcelain (take 10 eleven_entries),
             cp_stderr = []\<rparr> = porcelain (take 10 eleven_entries)"
    by simp_all
  have e: "\<forall>e\<in>set eleven_entries. status_entry e"
          "\<forall>e\<in>set (take 10 eleven_entries). status_entry e"
    by code_simp+
  have n: "length eleven_entries = 11" "length (take 10 eleven_entries) = 10"
    by (simp_all add: eleven_entries_def)
  show ?thesis
    using git_status_blocks_above_ten [OF s j(1) p(1) d(1) l(1) g(1) o(1) e(1), of demo_log]
      git_status_blocks_above_ten [OF s j(2) p(2) d(2) l(2) g(2) o(2) e(2), of demo_log] n
    by simp
qed

text \<open>
  Claim C10 as stated counts the files with uncommitted changes and lets ten of them
  through. In a project with ten changed files and no other fault, one of them a Python
  file changed in the last minutes, the Python check of the guardian compiles that file,
  which leaves a cache directory that git lists as an eleventh entry: the guardian
  blocks, on the warning of the git check alone.
\<close>

theorem ten_changes_counterexample:
  "subprocess_run compiling_project ''git status --porcelain'' None [] =
     (exits 0 (porcelain (take 10 eleven_entries)), [''git status --porcelain''])
   \<and> length (take 10 eleven_entries) = 10
   \<and> fst (check_javascript compiling_project demo_py []) = Inr []
   \<and> fst (check_python compiling_project demo_py []) = Inr []
   \<and> snd (check_python compiling_project demo_py []) =
       [find_recent_python, ''python3 -m py_compile ./src/a.py 2>&1'']
   \<and> stdout (fst (check_completion compiling_project demo_py demo_log
        (Inr demo_tool_input) [])) = Some [git_warning 11]
   \<and> \<not> allowed (fst (check_completion compiling_project demo_py demo_log
        (Inr demo_tool_input) []))"
  by code_simp

end
